theory Spec2Isabelle
  imports Complex_Main
begin

section \<open>Coordinate reconstruction by the NeRF method\<close>

text \<open>
  A shallow embedding of \<^verbatim>\<open>src/transformer/Structure.py\<close> and of \<^verbatim>\<open>getDihedral\<close> from
  \<^verbatim>\<open>src/scripts/data_aq.py\<close>.

  Tensors are modelled by their mathematical values: a tensor of shape (3) is a \<open>vec3\<close> of
  reals, a tensor of shape (3, 3) is a \<open>mat3\<close>, a scalar tensor is a real. Floating-point
  rounding, the element type and the device a tensor lives on are not part of the model;
  the branch of \<^verbatim>\<open>init_backbone\<close> on the device type is kept as written.
  Every indexing operation that can raise is a value of \<open>error + 'a\<close>.
\<close>

subsection \<open>Vectors and matrices\<close>

datatype vec3 = Vec3 (vx: real) (vy: real) (vz: real)

text \<open>Rows of a 3 x 3 tensor.\<close>
datatype mat3 = Mat3 vec3 vec3 vec3

definition zeros3 :: vec3 where
  "zeros3 = Vec3 0 0 0"

fun vadd :: "vec3 \<Rightarrow> vec3 \<Rightarrow> vec3" where
  "vadd (Vec3 a1 a2 a3) (Vec3 b1 b2 b3) = Vec3 (a1 + b1) (a2 + b2) (a3 + b3)"

fun vsub :: "vec3 \<Rightarrow> vec3 \<Rightarrow> vec3" where
  "vsub (Vec3 a1 a2 a3) (Vec3 b1 b2 b3) = Vec3 (a1 - b1) (a2 - b2) (a3 - b3)"

text \<open>\<^verbatim>\<open>t / s\<close> for a vector \<open>t\<close> and a scalar \<open>s\<close>.\<close>
fun vdiv :: "vec3 \<Rightarrow> real \<Rightarrow> vec3" where
  "vdiv (Vec3 a1 a2 a3) s = Vec3 (a1 / s) (a2 / s) (a3 / s)"

text \<open>\<^verbatim>\<open>(u * v).sum()\<close>.\<close>
fun dot :: "vec3 \<Rightarrow> vec3 \<Rightarrow> real" where
  "dot (Vec3 a1 a2 a3) (Vec3 b1 b2 b3) = a1 * b1 + a2 * b2 + a3 * b3"

text \<open>\<^verbatim>\<open>(t ** 2).sum()\<close>.\<close>
fun sumsq :: "vec3 \<Rightarrow> real" where
  "sumsq (Vec3 a1 a2 a3) = a1\<^sup>2 + a2\<^sup>2 + a3\<^sup>2"

text \<open>\<^verbatim>\<open>torch.cross\<close> and \<^verbatim>\<open>np.cross\<close> on vectors of three components.\<close>
fun cross :: "vec3 \<Rightarrow> vec3 \<Rightarrow> vec3" where
  "cross (Vec3 a1 a2 a3) (Vec3 b1 b2 b3) =
     Vec3 (a2 * b3 - a3 * b2) (a3 * b1 - a1 * b3) (a1 * b2 - a2 * b1)"

text \<open>\<^verbatim>\<open>torch.stack([x, y, z], dim=1)\<close>: the three vectors become the columns.\<close>
fun stack_dim1 :: "vec3 \<Rightarrow> vec3 \<Rightarrow> vec3 \<Rightarrow> mat3" where
  "stack_dim1 (Vec3 x1 x2 x3) (Vec3 y1 y2 y3) (Vec3 z1 z2 z3) =
     Mat3 (Vec3 x1 y1 z1) (Vec3 x2 y2 z2) (Vec3 x3 y3 z3)"

text \<open>\<^verbatim>\<open>torch.mm(M, d.unsqueeze(1)).squeeze()\<close>: matrix times column vector.\<close>
fun mm :: "mat3 \<Rightarrow> vec3 \<Rightarrow> vec3" where
  "mm (Mat3 r1 r2 r3) d = Vec3 (dot r1 d) (dot r2 d) (dot r3 d)"

subsection \<open>Errors, devices and indexing\<close>

datatype error = IndexError | KeyError | ArithmeticError

datatype device = Device (device_type: string)

type_synonym angles = "real list list"

text \<open>
  Reading position \<open>i\<close> of a list, or of the first dimension of a tensor: \<open>i\<close> may run from
  \<open>- length\<close> to \<open>length - 1\<close>, the negative positions counted back from the end; any
  other \<open>i\<close> raises \<^verbatim>\<open>IndexError\<close>.
\<close>
definition item :: "'a list \<Rightarrow> int \<Rightarrow> error + 'a" where
  "item xs i =
     (if i < - int (length xs) \<or> int (length xs) \<le> i then Inl IndexError
      else if i < 0 then Inr (xs ! nat (i + int (length xs)))
      else Inr (xs ! nat i))"

text \<open>\<^verbatim>\<open>angles[i, j]\<close>.\<close>
definition item2 :: "angles \<Rightarrow> int \<Rightarrow> int \<Rightarrow> error + real" where
  "item2 a i j = (case item a i of Inl e \<Rightarrow> Inl e | Inr row \<Rightarrow> item row j)"

subsection \<open>The functions of Structure.py\<close>

text \<open>The dictionary \<^verbatim>\<open>bondlens\<close>, read only at its three literal keys.\<close>
definition bondlens_n_ca :: real where "bondlens_n_ca = 1442 / 1000"
definition bondlens_ca_c :: real where "bondlens_ca_c = 1498 / 1000"
definition bondlens_c_n :: real where "bondlens_c_n = 1379 / 1000"

text \<open>The default value of the parameter \<^verbatim>\<open>eps\<close> of \<^verbatim>\<open>l2_normalize\<close>.\<close>
definition eps_default :: real where
  "eps_default = 1 / 10 ^ 12"

definition l2_normalize :: "vec3 \<Rightarrow> device \<Rightarrow> real \<Rightarrow> vec3" where
  "l2_normalize t dev eps = vdiv t (sqrt (max (sumsq t) eps))"

definition nerf :: "vec3 \<Rightarrow> vec3 \<Rightarrow> vec3 \<Rightarrow> real \<Rightarrow> real \<Rightarrow> real \<Rightarrow> device \<Rightarrow> vec3" where
  "nerf a b c l theta chi dev =
     (let W_hat = l2_normalize (vsub b a) dev eps_default;
          x_hat = l2_normalize (vsub c b) dev eps_default;
          n_unit = cross W_hat x_hat;
          z_hat = l2_normalize n_unit dev eps_default;
          y_hat = cross z_hat x_hat;
          M = stack_dim1 x_hat y_hat z_hat;
          d = Vec3 (- l * cos theta) (l * sin theta * cos chi) (l * sin theta * sin chi)
      in vadd c (mm M d))"

definition init_sidechain :: "angles \<Rightarrow> vec3 list \<Rightarrow> vec3 list" where
  "init_sidechain a backbone = [zeros3]"

definition init_backbone :: "angles \<Rightarrow> device \<Rightarrow> error + vec3 list" where
  "init_backbone a dev =
     (let a1 = zeros3 in
      if device_type dev = ''cuda'' then
        (let a2 = vadd a1 (Vec3 bondlens_n_ca 0 0) in
         case item2 a 0 3 of Inl e \<Rightarrow> Inl e | Inr t \<Rightarrow>
           (let a3x = cos (pi - t) * bondlens_ca_c;
                a3y = sin (pi - t) * bondlens_ca_c;
                a3 = Vec3 a3x a3y 0
            in Inr [a1, a2, a3]))
      else
        (let a2 = vadd a1 (Vec3 bondlens_n_ca 0 0) in
         case item2 a 0 3 of Inl e \<Rightarrow> Inl e | Inr t \<Rightarrow>
           (let a3x = cos (pi - t) * bondlens_ca_c;
                a3y = sin (pi - t) * bondlens_ca_c;
                a3 = Vec3 a3x a3y 0
            in Inr [a1, a2, a3])))"

text \<open>
  The values \<^verbatim>\<open>(t, b, dihedral)\<close> chosen by the \<^verbatim>\<open>if j == 0 / elif j == 1 / else\<close>
  of \<^verbatim>\<open>extend_backbone\<close>, the bond angle being read before the dihedral.
\<close>
definition bb_params :: "int \<Rightarrow> angles \<Rightarrow> nat \<Rightarrow> error + (real \<times> real \<times> real)" where
  "bb_params i a j =
     (if j = 0 then
        (case item2 a i 4 of Inl e \<Rightarrow> Inl e | Inr t \<Rightarrow>
         case item2 a (i - 1) 1 of Inl e \<Rightarrow> Inl e | Inr dihedral \<Rightarrow>
           Inr (t, bondlens_c_n, dihedral))
      else if j = 1 then
        (case item2 a i 5 of Inl e \<Rightarrow> Inl e | Inr t \<Rightarrow>
         case item2 a (i - 1) 2 of Inl e \<Rightarrow> Inl e | Inr dihedral \<Rightarrow>
           Inr (t, bondlens_n_ca, dihedral))
      else
        (case item2 a i 3 of Inl e \<Rightarrow> Inl e | Inr t \<Rightarrow>
         case item2 a i 0 of Inl e \<Rightarrow> Inl e | Inr dihedral \<Rightarrow>
           Inr (t, bondlens_ca_c, dihedral)))"

text \<open>
  The loop \<^verbatim>\<open>for j in range(3)\<close> of \<^verbatim>\<open>extend_backbone\<close>, over the remaining values of
  \<open>j\<close>, with the list \<^verbatim>\<open>bb_pts\<close> built so far. The points are appended to \<^verbatim>\<open>bb_pts\<close>;
  \<^verbatim>\<open>coords\<close> is only read.
\<close>
primrec extend_backbone_loop ::
  "int \<Rightarrow> angles \<Rightarrow> vec3 list \<Rightarrow> device \<Rightarrow> nat list \<Rightarrow> vec3 list \<Rightarrow> error + vec3 list" where
  "extend_backbone_loop i a coords dev [] bb_pts = Inr bb_pts"
| "extend_backbone_loop i a coords dev (j # js) bb_pts =
     (case bb_params i a j of Inl e \<Rightarrow> Inl e | Inr (t, b, dihedral) \<Rightarrow>
      case item coords (- 3) of Inl e \<Rightarrow> Inl e | Inr p3 \<Rightarrow>
      case item coords (- 2) of Inl e \<Rightarrow> Inl e | Inr p2 \<Rightarrow>
      case item coords (- 1) of Inl e \<Rightarrow> Inl e | Inr p1 \<Rightarrow>
        (let next_pt = nerf p3 p2 p1 b t dihedral dev
         in extend_backbone_loop i a coords dev js (bb_pts @ [next_pt])))"

definition extend_backbone :: "int \<Rightarrow> angles \<Rightarrow> vec3 list \<Rightarrow> device \<Rightarrow> error + vec3 list" where
  "extend_backbone i a coords dev = extend_backbone_loop i a coords dev [0, 1, 2] []"

text \<open>
  \<^verbatim>\<open>Sidechains.extend_sidechain\<close> is not among the sources; it is the parameter \<open>ext\<close>
  of the chain assembler, taking the arguments of the call and returning the list of
  side-chain points or raising. It is taken to leave the two lists it is given unchanged.
\<close>
type_synonym 'q sidechain_ext =
  "int \<Rightarrow> angles \<Rightarrow> vec3 list \<Rightarrow> vec3 list \<Rightarrow> 'q \<Rightarrow> error + vec3 list"

text \<open>
  The loop \<^verbatim>\<open>for i in range(1, pad_loc)\<close> of \<^verbatim>\<open>generate_coords\<close> over the remaining
  indices, on the pair \<^verbatim>\<open>(bb_arr, sc_arr)\<close>.
\<close>
primrec generate_coords_loop ::
  "'q sidechain_ext \<Rightarrow> angles \<Rightarrow> 'q \<Rightarrow> device \<Rightarrow> int list \<Rightarrow> vec3 list \<times> vec3 list
     \<Rightarrow> error + (vec3 list \<times> vec3 list)" where
  "generate_coords_loop ext a input_seq dev [] st = Inr st"
| "generate_coords_loop ext a input_seq dev (i # is) st =
     (case extend_backbone i a (fst st) dev of Inl e \<Rightarrow> Inl e | Inr bb_pts \<Rightarrow>
      (let bb_arr = fst st @ bb_pts in
       case ext i a bb_arr (snd st) input_seq of Inl e \<Rightarrow> Inl e | Inr sc_pts \<Rightarrow>
         generate_coords_loop ext a input_seq dev is (bb_arr, snd st @ sc_pts)))"

definition generate_coords ::
  "'q sidechain_ext \<Rightarrow> angles \<Rightarrow> int \<Rightarrow> 'q \<Rightarrow> device \<Rightarrow> error + vec3 list" where
  "generate_coords ext a pad_loc input_seq dev =
     (case init_backbone a dev of Inl e \<Rightarrow> Inl e | Inr bb_arr \<Rightarrow>
      (let sc_arr = init_sidechain a bb_arr in
       case generate_coords_loop ext a input_seq dev [1..pad_loc - 1] (bb_arr, sc_arr) of
         Inl e \<Rightarrow> Inl e
       | Inr (bb, sc) \<Rightarrow> Inr (bb @ sc)))"

subsection \<open>getDihedral of data_aq.py\<close>

text \<open>
  Dividing the zero vector by its length gives NaN in every component; every comparison
  with NaN is false, so the chain of tests ends in \<^verbatim>\<open>raise ArithmeticError\<close>. The model
  takes that branch when one of the two cross products is the zero vector.
\<close>
definition getDihedral :: "vec3 \<Rightarrow> vec3 \<Rightarrow> vec3 \<Rightarrow> vec3 \<Rightarrow> bool \<Rightarrow> error + real" where
  "getDihedral coords1 coords2 coords3 coords4 radian =
     (let rad2deg = 180 / pi;
          eps = 1 / 10 ^ 6;
          a1 = vsub coords2 coords1;
          a2 = vsub coords3 coords2;
          a3 = vsub coords4 coords3;
          c1 = cross a1 a2;
          c2 = cross a2 a3
      in if sumsq c1 = 0 \<or> sumsq c2 = 0 then Inl ArithmeticError
         else
          (let v1 = vdiv c1 (sqrt (dot c1 c1));
               v2 = vdiv c2 (sqrt (dot c2 c2));
               porm = sgn (dot v1 a3);
               arccos_input_raw = dot v1 v2 / sqrt (sumsq v1 * sumsq v2)
           in if - 1 \<le> arccos_input_raw \<and> arccos_input_raw \<le> 1 then
                Inr (let rad = arccos arccos_input_raw;
                         rad = (if porm \<noteq> 0 then rad * porm else rad)
                     in if radian then rad else rad * rad2deg)
              else if arccos_input_raw > 1 \<and> arccos_input_raw - 1 < eps then
                Inr (let rad = arccos 1;
                         rad = (if porm \<noteq> 0 then rad * porm else rad)
                     in if radian then rad else rad * rad2deg)
              else if arccos_input_raw < - 1 \<and> \<bar>arccos_input_raw\<bar> - 1 < eps then
                Inr (let rad = arccos (- 1);
                         rad = (if porm \<noteq> 0 then rad * porm else rad)
                     in if radian then rad else rad * rad2deg)
              else Inl ArithmeticError))"

subsection \<open>The specification's wording, and concrete arguments\<close>

text \<open>
  The normalization as the specification words it, \<^verbatim>\<open>v / max(|v|, eps)\<close> with
  \<^verbatim>\<open>eps = 1e-12\<close>; it is compared with \<open>l2_normalize\<close> below.
\<close>
definition normalize_spec :: "vec3 \<Rightarrow> vec3" where
  "normalize_spec v = vdiv v (max (sqrt (sumsq v)) (1 / 10 ^ 12))"

text \<open>
  The emission order as the specification words it: residue after residue, the backbone
  atoms of a residue followed by the side-chain atoms of the same residue.
\<close>
definition interleaved_order :: "vec3 list list \<Rightarrow> vec3 list list \<Rightarrow> vec3 list" where
  "interleaved_order bbs scs = concat (map2 (@) bbs scs)"

text \<open>A side-chain extender that adds no atom (a zero-length extension).\<close>
definition no_sidechain :: "string sidechain_ext" where
  "no_sidechain i a bb sc q = Inr []"

text \<open>An angle table of \<open>n\<close> rows and 11 columns, every entry a right angle.\<close>
definition right_angles :: "nat \<Rightarrow> angles" where
  "right_angles n = replicate n (replicate 11 (pi / 2))"

text \<open>Exact normalization to unit length, \<^verbatim>\<open>v / |v|\<close>.\<close>
definition unit_normalize :: "vec3 \<Rightarrow> vec3" where
  "unit_normalize v = vdiv v (sqrt (sumsq v))"

text \<open>\<open>l2_normalize\<close> as \<open>nerf\<close> calls it, with the default \<open>eps\<close>.\<close>
definition normalize_code :: "device \<Rightarrow> vec3 \<Rightarrow> vec3" where
  "normalize_code dev v = l2_normalize v dev eps_default"

text \<open>
  The placement formula as the specification words it, for a given reading \<open>nrm\<close> of
  "normalize": \<^verbatim>\<open>x = normalize(c - b)\<close>, \<^verbatim>\<open>z = normalize((b - a) \<times> x)\<close>, \<^verbatim>\<open>y = z \<times> x\<close>,
  \<^verbatim>\<open>d = c + M . displacement\<close> with the columns \<open>x, y, z\<close> of \<open>M\<close>.
\<close>
definition nerf_spec ::
  "(vec3 \<Rightarrow> vec3) \<Rightarrow> vec3 \<Rightarrow> vec3 \<Rightarrow> vec3 \<Rightarrow> real \<Rightarrow> real \<Rightarrow> real \<Rightarrow> vec3" where
  "nerf_spec nrm a b c l theta chi =
     (let x_hat = nrm (vsub c b);
          z_hat = nrm (cross (vsub b a) x_hat);
          y_hat = cross z_hat x_hat;
          M = stack_dim1 x_hat y_hat z_hat
      in vadd c (mm M (Vec3 (- l * cos theta) (l * sin theta * cos chi) (l * sin theta * sin chi))))"

text \<open>Scalar times vector, used to state the algebra of the frame.\<close>
fun smul :: "real \<Rightarrow> vec3 \<Rightarrow> vec3" where
  "smul s (Vec3 a1 a2 a3) = Vec3 (s * a1) (s * a2) (s * a3)"

section \<open>Auxiliary facts\<close>

subsection \<open>Normalization\<close>

lemma sqrt_eps_default: "sqrt eps_default = 1 / 10 ^ 6"
proof -
  have "eps_default = (1 / 10 ^ 6)\<^sup>2" by (simp add: eps_default_def power2_eq_square)
  then have "sqrt eps_default = sqrt ((1 / 10 ^ 6)\<^sup>2)" by (rule arg_cong)
  also have "\<dots> = \<bar>1 / 10 ^ 6 :: real\<bar>" by (rule real_sqrt_abs)
  finally show ?thesis by simp
qed

lemma sqrt_max_eps: "sqrt (max s eps_default) = max (sqrt s) (1 / 10 ^ 6)"
proof -
  have "sqrt (max s eps_default) = max (sqrt s) (sqrt eps_default)"
    by (simp add: max_def)
  then show ?thesis by (simp only: sqrt_eps_default)
qed

lemma l2_normalize_floor:
  "l2_normalize v dev eps_default = vdiv v (max (sqrt (sumsq v)) (1 / 10 ^ 6))"
  by (simp only: l2_normalize_def sqrt_max_eps)

lemma sumsq_nonneg: "0 \<le> sumsq v" by (cases v) simp

lemma sumsq_vdiv: "sumsq (vdiv v s) = sumsq v / s\<^sup>2"
  by (cases v) (simp add: power_divide add_divide_distrib)

lemma l2_le1: "sumsq (l2_normalize v dev eps_default) \<le> 1"
proof -
  have "sumsq (l2_normalize v dev eps_default) = sumsq v / max (sumsq v) eps_default"
    using sumsq_nonneg[of v] by (simp add: l2_normalize_def sumsq_vdiv max_def eps_default_def)
  also have "\<dots> \<le> 1" using sumsq_nonneg[of v] by (simp add: max_def eps_default_def divide_le_eq)
  finally show ?thesis .
qed

subsection \<open>The loops\<close>

lemma extend_backbone_Inr:
  assumes "extend_backbone i a coords dev = Inr pts"
  shows "\<exists>t0 d0 t1 d1 t2 d2 p3 p2 p1.
     item2 a i 4 = Inr t0 \<and> item2 a (i - 1) 1 = Inr d0 \<and>
     item2 a i 5 = Inr t1 \<and> item2 a (i - 1) 2 = Inr d1 \<and>
     item2 a i 3 = Inr t2 \<and> item2 a i 0 = Inr d2 \<and>
     item coords (- 3) = Inr p3 \<and> item coords (- 2) = Inr p2 \<and> item coords (- 1) = Inr p1 \<and>
     pts = [nerf p3 p2 p1 bondlens_c_n t0 d0 dev,
            nerf p3 p2 p1 bondlens_n_ca t1 d1 dev,
            nerf p3 p2 p1 bondlens_ca_c t2 d2 dev]"
  using assms
  by (auto simp add: extend_backbone_def bb_params_def Let_def split: sum.splits prod.splits)

lemma extend_backbone_eq:
  assumes "item2 a i 4 = Inr t0" "item2 a (i - 1) 1 = Inr d0"
     "item2 a i 5 = Inr t1" "item2 a (i - 1) 2 = Inr d1"
     "item2 a i 3 = Inr t2" "item2 a i 0 = Inr d2"
     "item coords (- 3) = Inr p3" "item coords (- 2) = Inr p2" "item coords (- 1) = Inr p1"
  shows "extend_backbone i a coords dev =
     Inr [nerf p3 p2 p1 bondlens_c_n t0 d0 dev,
          nerf p3 p2 p1 bondlens_n_ca t1 d1 dev,
          nerf p3 p2 p1 bondlens_ca_c t2 d2 dev]"
  using assms by (simp add: extend_backbone_def bb_params_def Let_def)

lemma extend_backbone_length:
  "extend_backbone i a coords dev = Inr pts \<Longrightarrow> length pts = 3"
  by (drule extend_backbone_Inr) auto

lemma extend_backbone_error:
  "extend_backbone i a coords dev = Inl e \<Longrightarrow> e = IndexError"
  by (auto simp add: extend_backbone_def bb_params_def item2_def item_def Let_def
      split: sum.splits prod.splits if_splits)

lemma init_backbone_error:
  "init_backbone a dev = Inl e \<Longrightarrow> e = IndexError"
  by (auto simp add: init_backbone_def item2_def item_def Let_def
      split: sum.splits prod.splits if_splits)

lemma init_backbone_length:
  "init_backbone a dev = Inr bb \<Longrightarrow> length bb = 3"
  by (auto simp add: init_backbone_def Let_def split: sum.splits if_splits)

lemma item2_row_out_of_range:
  "int (length a) \<le> i \<Longrightarrow> item2 a i j = Inl IndexError"
  by (simp add: item2_def item_def Let_def)

lemma extend_backbone_out_of_range:
  "int (length a) \<le> i \<Longrightarrow> extend_backbone i a coords dev = Inl IndexError"
  by (simp add: extend_backbone_def bb_params_def item2_row_out_of_range)

lemma generate_coords_loop_blocks:
  "generate_coords_loop ext a q dev is (bb, sc) = Inr (bb', sc') \<Longrightarrow>
   \<exists>bbs scs. length bbs = length is \<and> length scs = length is \<and>
     bb' = bb @ concat bbs \<and> sc' = sc @ concat scs \<and>
     (\<forall>k < length is.
        extend_backbone (is ! k) a (bb @ concat (take k bbs)) dev = Inr (bbs ! k) \<and>
        ext (is ! k) a (bb @ concat (take (Suc k) bbs)) (sc @ concat (take k scs)) q
          = Inr (scs ! k))"
proof (induction "is" arbitrary: bb sc)
  case Nil
  then show ?case by simp
next
  case (Cons i "is")
  from Cons.prems obtain p s where
    p: "extend_backbone i a bb dev = Inr p" and
    s: "ext i a (bb @ p) sc q = Inr s" and
    r: "generate_coords_loop ext a q dev is (bb @ p, sc @ s) = Inr (bb', sc')"
    by (auto simp add: Let_def split: sum.splits)
  from Cons.IH[OF r] obtain bbs scs where
    l: "length bbs = length is" "length scs = length is" and
    e: "bb' = (bb @ p) @ concat bbs" "sc' = (sc @ s) @ concat scs" and
    k: "\<forall>k < length is.
        extend_backbone (is ! k) a ((bb @ p) @ concat (take k bbs)) dev = Inr (bbs ! k) \<and>
        ext (is ! k) a ((bb @ p) @ concat (take (Suc k) bbs)) ((sc @ s) @ concat (take k scs)) q
          = Inr (scs ! k)"
    by blast
  have "\<forall>k < length (i # is).
        extend_backbone ((i # is) ! k) a (bb @ concat (take k (p # bbs))) dev = Inr ((p # bbs) ! k) \<and>
        ext ((i # is) ! k) a (bb @ concat (take (Suc k) (p # bbs))) (sc @ concat (take k (s # scs))) q
          = Inr ((s # scs) ! k)"
  proof (intro allI impI)
    fix k assume "k < length (i # is)"
    then show "extend_backbone ((i # is) ! k) a (bb @ concat (take k (p # bbs))) dev = Inr ((p # bbs) ! k) \<and>
        ext ((i # is) ! k) a (bb @ concat (take (Suc k) (p # bbs))) (sc @ concat (take k (s # scs))) q
          = Inr ((s # scs) ! k)"
      using p s k by (cases k) auto
  qed
  then show ?case using l e
    by (intro exI[of _ "p # bbs"] exI[of _ "s # scs"]) simp
qed

lemma generate_coords_loop_fails:
  "i \<in> set is \<Longrightarrow> (\<And>coords. extend_backbone i a coords dev = Inl IndexError) \<Longrightarrow>
   \<exists>e. generate_coords_loop ext a q dev is st = Inl e \<and>
     (e = IndexError \<or> (\<exists>j a' bb sc. ext j a' bb sc q = Inl e))"
proof (induction "is" arbitrary: st)
  case Nil
  then show ?case by simp
next
  case (Cons j "is")
  show ?case
  proof (cases "extend_backbone j a (fst st) dev")
    case (Inl e)
    then show ?thesis using extend_backbone_error[OF Inl] by simp
  next
    case (Inr p)
    then have ji: "j \<noteq> i" using Cons.prems(2)[of "fst st"] by auto
    show ?thesis
    proof (cases "ext j a (fst st @ p) (snd st) q")
      case (Inl e)
      then show ?thesis using Inr by (auto simp add: Let_def)
    next
      case s: (Inr s)
      have "i \<in> set is" using Cons.prems(1) ji by simp
      from Cons.IH[OF this Cons.prems(2), of "(fst st @ p, snd st @ s)"]
      show ?thesis using Inr s by (simp add: Let_def)
    qed
  qed
qed

lemma generate_coords_Inr:
  assumes "generate_coords ext a pad_loc q dev = Inr out"
  shows "\<exists>bb0 bbs scs. init_backbone a dev = Inr bb0 \<and>
     length bbs = nat (pad_loc - 1) \<and> length scs = nat (pad_loc - 1) \<and>
     out = (bb0 @ concat bbs) @ (init_sidechain a bb0 @ concat scs) \<and>
     (\<forall>k < nat (pad_loc - 1).
        extend_backbone (1 + int k) a (bb0 @ concat (take k bbs)) dev = Inr (bbs ! k) \<and>
        ext (1 + int k) a (bb0 @ concat (take (Suc k) bbs))
            (init_sidechain a bb0 @ concat (take k scs)) q = Inr (scs ! k))"
proof -
  from assms obtain bb0 bb sc where
    b: "init_backbone a dev = Inr bb0" and
    l: "generate_coords_loop ext a q dev [1..pad_loc - 1] (bb0, init_sidechain a bb0) = Inr (bb, sc)" and
    o: "out = bb @ sc"
    by (auto simp add: generate_coords_def Let_def split: sum.splits prod.splits)
  from generate_coords_loop_blocks[OF l] obtain bbs scs where
    x: "length bbs = length [1..pad_loc - 1]" "length scs = length [1..pad_loc - 1]"
     "bb = bb0 @ concat bbs" "sc = init_sidechain a bb0 @ concat scs"
     "\<forall>k < length [1..pad_loc - 1].
        extend_backbone ([1..pad_loc - 1] ! k) a (bb0 @ concat (take k bbs)) dev = Inr (bbs ! k) \<and>
        ext ([1..pad_loc - 1] ! k) a (bb0 @ concat (take (Suc k) bbs))
           (init_sidechain a bb0 @ concat (take k scs)) q = Inr (scs ! k)"
    by blast
  have len: "length [1..pad_loc - 1] = nat (pad_loc - 1)" by simp
  have nth: "\<And>k. k < nat (pad_loc - 1) \<Longrightarrow> [1..pad_loc - 1] ! k = int k + 1"
    by (simp add: nth_upto)
  show ?thesis
    apply (rule exI[of _ bb0], rule exI[of _ bbs], rule exI[of _ scs])
    using b o x by (simp add: nth len)
qed

lemma concat_length3:
  "(\<forall>b \<in> set bbs. length b = 3) \<Longrightarrow> length (concat bbs) = 3 * length bbs"
  by (induction bbs) auto

subsection \<open>A chain of two residues with right angles\<close>

lemma item2_right_angles:
  "0 \<le> i \<Longrightarrow> i < int n \<Longrightarrow> 0 \<le> j \<Longrightarrow> j < 11 \<Longrightarrow> item2 (right_angles n) i j = Inr (pi / 2)"
  by (simp add: item2_def item_def right_angles_def Let_def)

lemma l2_normalize_x_axis:
  "1 / 10 ^ 6 \<le> x \<Longrightarrow> l2_normalize (Vec3 x 0 0) dev eps_default = Vec3 1 0 0"
  by (simp add: l2_normalize_floor max_def)

lemma l2_normalize_z_axis:
  "1 / 10 ^ 6 \<le> z \<Longrightarrow> l2_normalize (Vec3 0 0 z) dev eps_default = Vec3 0 0 1"
  by (simp add: l2_normalize_floor max_def)

lemma nerf_seed_frame:
  "nerf zeros3 (Vec3 bondlens_n_ca 0 0) (Vec3 0 bondlens_ca_c 0) l (pi / 2) (pi / 2) dev
     = Vec3 0 bondlens_ca_c l"
proof -
  define s where "s = max (sqrt (sumsq (Vec3 (- bondlens_n_ca) bondlens_ca_c 0))) (1 / 10 ^ 6)"
  have s0: "0 < s" by (simp add: s_def less_max_iff_disj)
  have "sqrt (sumsq (Vec3 (- bondlens_n_ca) bondlens_ca_c 0)) \<le> sqrt (3\<^sup>2)"
    by (subst real_sqrt_le_iff) (simp add: power2_eq_square bondlens_n_ca_def bondlens_ca_c_def)
  then have s3: "s \<le> 3" by (simp add: s_def)
  have W: "l2_normalize (vsub (Vec3 bondlens_n_ca 0 0) zeros3) dev eps_default = Vec3 1 0 0"
    using l2_normalize_x_axis[of bondlens_n_ca dev] by (simp add: zeros3_def bondlens_n_ca_def)
  have X: "l2_normalize (vsub (Vec3 0 bondlens_ca_c 0) (Vec3 bondlens_n_ca 0 0)) dev eps_default
      = Vec3 (- bondlens_n_ca / s) (bondlens_ca_c / s) 0"
    by (simp add: l2_normalize_floor s_def)
  have "1 / 10 ^ 6 * s \<le> bondlens_ca_c" using s3 by (simp add: bondlens_ca_c_def)
  then have "1 / 10 ^ 6 \<le> bondlens_ca_c / s" using s0 by (simp add: pos_le_divide_eq)
  then have Z: "l2_normalize (Vec3 0 0 (bondlens_ca_c / s)) dev eps_default = Vec3 0 0 1"
    by (rule l2_normalize_z_axis)
  show ?thesis
    unfolding nerf_def Let_def W X
    by (simp add: Z)
qed

lemma init_backbone_right_angles:
  "0 < n \<Longrightarrow> init_backbone (right_angles n) dev
     = Inr [zeros3, Vec3 bondlens_n_ca 0 0, Vec3 0 bondlens_ca_c 0]"
  by (simp add: init_backbone_def item2_right_angles Let_def zeros3_def)

lemma extend_backbone_right_angles:
  "extend_backbone 1 (right_angles 2) [zeros3, Vec3 bondlens_n_ca 0 0, Vec3 0 bondlens_ca_c 0] dev
     = Inr [Vec3 0 bondlens_ca_c bondlens_c_n, Vec3 0 bondlens_ca_c bondlens_n_ca,
            Vec3 0 bondlens_ca_c bondlens_ca_c]"
  by (subst extend_backbone_eq[where ?t0.0 = "pi / 2" and ?d0.0 = "pi / 2" and ?t1.0 = "pi / 2"
        and ?d1.0 = "pi / 2" and ?t2.0 = "pi / 2" and ?d2.0 = "pi / 2"
        and ?p3.0 = zeros3 and ?p2.0 = "Vec3 bondlens_n_ca 0 0"
        and ?p1.0 = "Vec3 0 bondlens_ca_c 0"])
    (simp_all add: item2_right_angles item_def nerf_seed_frame)

lemma generate_coords_right_angles:
  "generate_coords no_sidechain (right_angles 2) 2 q dev
     = Inr [zeros3, Vec3 bondlens_n_ca 0 0, Vec3 0 bondlens_ca_c 0,
            Vec3 0 bondlens_ca_c bondlens_c_n, Vec3 0 bondlens_ca_c bondlens_n_ca,
            Vec3 0 bondlens_ca_c bondlens_ca_c, zeros3]"
  by (simp add: generate_coords_def init_backbone_right_angles extend_backbone_right_angles
      init_sidechain_def no_sidechain_def Let_def)

lemma generate_coords_loop_cong:
  "(\<forall>i \<in> set is. \<forall>bb sc. ext i a bb sc q = ext' i a bb sc q) \<Longrightarrow>
   generate_coords_loop ext a q dev is st = generate_coords_loop ext' a q dev is st"
  by (induction "is" arbitrary: st) (auto simp add: Let_def split: sum.splits)

subsection \<open>The frame of the placement step\<close>

lemma l2_normalize_unit:
  "1 / 10 ^ 6 \<le> sqrt (sumsq w) \<Longrightarrow> l2_normalize w dev eps_default = unit_normalize w"
  by (simp only: l2_normalize_floor unit_normalize_def max_absorb1)

lemma cross_vdiv_left: "cross (vdiv a s) b = vdiv (cross a b) s"
  by (cases a; cases b) (simp add: diff_divide_distrib)

lemma cross_vdiv_right: "cross a (vdiv b s) = vdiv (cross a b) s"
  by (cases a; cases b) (simp add: diff_divide_distrib)

lemma vdiv_vdiv: "vdiv (vdiv a s) t = vdiv a (s * t)"
  by (cases a) simp

lemma sqrt_sumsq_vdiv: "0 < s \<Longrightarrow> sqrt (sumsq (vdiv w s)) = sqrt (sumsq w) / s"
  by (simp add: sumsq_vdiv real_sqrt_divide)

lemma floor_pos: "1 / 10 ^ 6 \<le> (x::real) \<Longrightarrow> 0 < x"
  by (rule less_le_trans[of 0 "1 / 10 ^ 6"]) simp_all

lemma unit_vdiv:
  assumes "0 < s"
  shows "unit_normalize (vdiv w s) = unit_normalize w"
proof -
  have "unit_normalize (vdiv w s) = vdiv (vdiv w s) (sqrt (sumsq w) / s)"
    by (simp only: unit_normalize_def sqrt_sumsq_vdiv[OF assms])
  also have "\<dots> = vdiv w (sqrt (sumsq w))" using assms by (cases w) simp
  finally show ?thesis by (simp only: unit_normalize_def)
qed

lemma nerf_unit_frame:
  assumes u: "1 / 10 ^ 6 \<le> sqrt (sumsq (vsub b a))"
    and v: "1 / 10 ^ 6 \<le> sqrt (sumsq (vsub c b))"
    and n: "sqrt (sumsq (vsub b a)) * sqrt (sumsq (vsub c b)) / 10 ^ 6
              \<le> sqrt (sumsq (cross (vsub b a) (vsub c b)))"
  shows "nerf a b c l theta chi dev =
     vadd c (mm (stack_dim1 (unit_normalize (vsub c b))
                   (cross (unit_normalize (cross (vsub b a) (vsub c b))) (unit_normalize (vsub c b)))
                   (unit_normalize (cross (vsub b a) (vsub c b))))
              (Vec3 (- l * cos theta) (l * sin theta * cos chi) (l * sin theta * sin chi)))"
proof -
  define su where "su = sqrt (sumsq (vsub b a))"
  define sv where "sv = sqrt (sumsq (vsub c b))"
  have su0: "0 < su" and sv0: "0 < sv"
    using floor_pos[OF u] floor_pos[OF v] by (simp_all only: su_def sv_def)
  have W: "l2_normalize (vsub b a) dev eps_default = vdiv (vsub b a) su"
    using l2_normalize_unit[OF u] by (simp add: unit_normalize_def su_def)
  have X: "l2_normalize (vsub c b) dev eps_default = unit_normalize (vsub c b)"
    using l2_normalize_unit[OF v] .
  have N: "cross (vdiv (vsub b a) su) (unit_normalize (vsub c b))
      = vdiv (cross (vsub b a) (vsub c b)) (sv * su)"
    by (simp add: unit_normalize_def cross_vdiv_left cross_vdiv_right vdiv_vdiv sv_def mult.commute)
  have p: "0 < sv * su" using su0 sv0 by simp
  have "su * sv / 10 ^ 6 \<le> sqrt (sumsq (cross (vsub b a) (vsub c b)))"
    using n by (simp add: su_def sv_def)
  then have "1 / 10 ^ 6 \<le> sqrt (sumsq (cross (vsub b a) (vsub c b))) / (sv * su)"
    using p by (simp add: pos_le_divide_eq mult.commute)
  then have "1 / 10 ^ 6 \<le> sqrt (sumsq (vdiv (cross (vsub b a) (vsub c b)) (sv * su)))"
    by (simp only: sqrt_sumsq_vdiv[OF p])
  then have Z: "l2_normalize (vdiv (cross (vsub b a) (vsub c b)) (sv * su)) dev eps_default
      = unit_normalize (cross (vsub b a) (vsub c b))"
    by (simp only: l2_normalize_unit unit_vdiv[OF p])
  show ?thesis
    unfolding nerf_def Let_def W X N Z ..
qed

lemma nerf_spec_unit_frame:
  assumes v: "1 / 10 ^ 6 \<le> sqrt (sumsq (vsub c b))"
  shows "nerf_spec unit_normalize a b c l theta chi =
     vadd c (mm (stack_dim1 (unit_normalize (vsub c b))
                   (cross (unit_normalize (cross (vsub b a) (vsub c b))) (unit_normalize (vsub c b)))
                   (unit_normalize (cross (vsub b a) (vsub c b))))
              (Vec3 (- l * cos theta) (l * sin theta * cos chi) (l * sin theta * sin chi)))"
proof -
  have p: "0 < sqrt (sumsq (vsub c b))" using v by (rule floor_pos)
  have "unit_normalize (cross (vsub b a) (unit_normalize (vsub c b)))
      = unit_normalize (cross (vsub b a) (vsub c b))"
    unfolding unit_normalize_def[of "vsub c b"] cross_vdiv_right by (rule unit_vdiv[OF p])
  then show ?thesis by (simp add: nerf_spec_def Let_def)
qed

lemma nerf_tiny:
  "nerf (Vec3 0 0 0) (Vec3 0 (1 / 10 ^ 9) 0) (Vec3 (1 / 10 ^ 10) (1 / 10 ^ 9) 0) 1 (pi / 2) (pi / 2) dev
     = Vec3 (1 / 10 ^ 10) (1 / 10 ^ 9) (- (1 / 10))"
  by (simp add: nerf_def Let_def l2_normalize_floor)

lemma nerf_spec_unit_tiny:
  "nerf_spec unit_normalize (Vec3 0 0 0) (Vec3 0 (1 / 10 ^ 9) 0) (Vec3 (1 / 10 ^ 10) (1 / 10 ^ 9) 0) 1 (pi / 2) (pi / 2)
     = Vec3 (1 / 10 ^ 10) (1 / 10 ^ 9) (- 1)"
  by (simp add: nerf_spec_def Let_def unit_normalize_def)

lemma nerf_spec_eps_tiny:
  "nerf_spec normalize_spec (Vec3 0 0 0) (Vec3 0 (1 / 10 ^ 9) 0) (Vec3 (1 / 10 ^ 10) (1 / 10 ^ 9) 0) 1 (pi / 2) (pi / 2)
     = Vec3 (1 / 10 ^ 10) (1 / 10 ^ 9) (- 1)"
  by (simp add: nerf_spec_def Let_def normalize_spec_def)

lemma nerf_spec_code_tiny:
  "nerf_spec (normalize_code dev) (Vec3 0 0 0) (Vec3 0 (1 / 10 ^ 9) 0) (Vec3 (1 / 10 ^ 10) (1 / 10 ^ 9) 0) 1 (pi / 2) (pi / 2)
     = Vec3 (1 / 10 ^ 10) (1 / 10 ^ 9) (- (1 / 10 ^ 7))"
  by (simp add: nerf_spec_def Let_def normalize_code_def l2_normalize_floor)

subsection \<open>Vector algebra\<close>

lemma dot_self: "dot a a = sumsq a"
  by (cases a) (simp add: power2_eq_square)

lemma dot_cross_left: "dot (cross a b) a = 0"
  by (cases a; cases b) (simp add: algebra_simps)

lemma dot_cross_right: "dot (cross a b) b = 0"
  by (cases a; cases b) (simp add: algebra_simps)

lemma sumsq_cross: "sumsq (cross a b) = sumsq a * sumsq b - (dot a b)\<^sup>2"
  by (cases a; cases b) (simp add: power2_eq_square algebra_simps)

lemma dot_vdiv_left: "dot (vdiv a s) b = dot a b / s"
  by (cases a; cases b) (simp add: add_divide_distrib)

lemma dot_vdiv_right: "dot a (vdiv b s) = dot a b / s"
  by (cases a; cases b) (simp add: add_divide_distrib)

lemma vsub_vadd_cancel: "vsub (vadd c w) c = w"
  by (cases c; cases w) simp

lemma sumsq_unit: "0 < sumsq w \<Longrightarrow> sumsq (unit_normalize w) = 1"
  by (simp add: unit_normalize_def sumsq_vdiv sumsq_nonneg)

lemma sumsq_mm_frame:
  assumes "sumsq x = 1" "sumsq z = 1" "dot z x = 0"
  shows "sumsq (mm (stack_dim1 x (cross z x) z) (Vec3 p q r)) = p\<^sup>2 + q\<^sup>2 + r\<^sup>2"
proof -
  have y: "sumsq (cross z x) = 1" using assms by (simp add: sumsq_cross)
  have e: "sumsq (mm (stack_dim1 x (cross z x) z) (Vec3 p q r))
      = p\<^sup>2 * sumsq x + q\<^sup>2 * sumsq (cross z x) + r\<^sup>2 * sumsq z
        + 2 * p * q * dot (cross z x) x + 2 * q * r * dot (cross z x) z + 2 * p * r * dot z x"
    by (cases x; cases z) (simp add: power2_eq_square algebra_simps)
  show ?thesis unfolding e y assms dot_cross_left dot_cross_right by simp
qed

lemma sumsq_displacement_poly:
  "(- l * c)\<^sup>2 + (l * s * k)\<^sup>2 + (l * s * m)\<^sup>2 = l\<^sup>2 * (c\<^sup>2 + s\<^sup>2 * (k\<^sup>2 + m\<^sup>2))"
  for l c s k m :: real
  by (simp add: power2_eq_square algebra_simps)

lemma sumsq_displacement:
  "(- l * cos theta)\<^sup>2 + (l * sin theta * cos chi)\<^sup>2 + (l * sin theta * sin chi)\<^sup>2 = l\<^sup>2"
  for l theta chi :: real
proof -
  have "(- l * cos theta)\<^sup>2 + (l * sin theta * cos chi)\<^sup>2 + (l * sin theta * sin chi)\<^sup>2
      = l\<^sup>2 * ((cos theta)\<^sup>2 + (sin theta)\<^sup>2 * ((cos chi)\<^sup>2 + (sin chi)\<^sup>2))"
    by (rule sumsq_displacement_poly)
  then show ?thesis by simp
qed

lemma nerf_distance:
  assumes u: "1 / 10 ^ 6 \<le> sqrt (sumsq (vsub b a))"
    and v: "1 / 10 ^ 6 \<le> sqrt (sumsq (vsub c b))"
    and n: "sqrt (sumsq (vsub b a)) * sqrt (sumsq (vsub c b)) / 10 ^ 6
              \<le> sqrt (sumsq (cross (vsub b a) (vsub c b)))"
    and l: "0 \<le> l"
  shows "sqrt (sumsq (vsub (nerf a b c l theta chi dev) c)) = l"
proof -
  have "0 < sqrt (sumsq (vsub b a)) * sqrt (sumsq (vsub c b)) / 10 ^ 6"
    using floor_pos[OF u] floor_pos[OF v] by simp
  then have "0 < sqrt (sumsq (cross (vsub b a) (vsub c b)))" using n by (rule less_le_trans)
  then have N0: "0 < sumsq (cross (vsub b a) (vsub c b))" by simp
  have v0: "0 < sumsq (vsub c b)" using floor_pos[OF v] by simp
  have x: "sumsq (unit_normalize (vsub c b)) = 1" using v0 by (rule sumsq_unit)
  have z: "sumsq (unit_normalize (cross (vsub b a) (vsub c b))) = 1" using N0 by (rule sumsq_unit)
  have o: "dot (unit_normalize (cross (vsub b a) (vsub c b))) (unit_normalize (vsub c b)) = 0"
    by (simp add: unit_normalize_def dot_vdiv_left dot_vdiv_right dot_cross_right)
  have "sumsq (vsub (nerf a b c l theta chi dev) c) = l\<^sup>2"
    unfolding nerf_unit_frame[OF u v n] vsub_vadd_cancel sumsq_mm_frame[OF x z o]
    by (rule sumsq_displacement)
  then show ?thesis using l by simp
qed

subsection \<open>The dihedral angle\<close>

lemma signed_arccos:
  fixes chi :: real
  shows "\<exists>k::int. (if sgn (sin chi) \<noteq> 0 then arccos (cos chi) * sgn (sin chi) else arccos (cos chi))
           = chi + 2 * pi * real_of_int k"
proof -
  define r where "r = (if sgn (sin chi) \<noteq> 0 then arccos (cos chi) * sgn (sin chi) else arccos (cos chi))"
  have c: "cos (arccos (cos chi)) = cos chi" by simp
  have s: "sin (arccos (cos chi)) = \<bar>sin chi\<bar>"
    by (simp add: sin_arccos_abs abs_le_iff flip: sin_squared_eq)
  have "sin r = sin chi \<and> cos r = cos chi"
  proof (cases "sin chi = 0")
    case True
    then show ?thesis using c s by (simp add: r_def)
  next
    case False
    then consider "0 < sin chi" | "sin chi < 0" by linarith
    then show ?thesis
    proof cases
      case 1
      then show ?thesis using c s by (simp add: r_def)
    next
      case 2
      then show ?thesis using c s by (simp add: r_def)
    qed
  qed
  then have "\<exists>k::int. r = chi + 2 * pi * real_of_int k" by (simp only: sin_cos_eq_iff)
  then show ?thesis by (simp only: r_def)
qed

lemma sumsq_vdiv_sqrt: "0 < sumsq w \<Longrightarrow> sumsq (vdiv w (sqrt (sumsq w))) = 1"
  by (simp add: sumsq_vdiv sumsq_nonneg)

lemma getDihedral_core:
  assumes N: "0 < sumsq (cross (vsub b a) (vsub c b))"
    and C: "0 < sumsq (cross (vsub c b) (vsub d c))"
    and raw: "dot (cross (vsub b a) (vsub c b)) (cross (vsub c b) (vsub d c))
              / (sqrt (sumsq (cross (vsub b a) (vsub c b))) * sqrt (sumsq (cross (vsub c b) (vsub d c)))) = rho"
    and rho: "- 1 \<le> rho" "rho \<le> 1"
    and porm: "sgn (dot (cross (vsub b a) (vsub c b)) (vsub d c)) = sg"
  shows "getDihedral a b c d True = Inr (if sg \<noteq> 0 then arccos rho * sg else arccos rho)"
proof -
  define c1 where "c1 = cross (vsub b a) (vsub c b)"
  define c2 where "c2 = cross (vsub c b) (vsub d c)"
  have p1: "0 < sqrt (sumsq c1)" and p2: "0 < sqrt (sumsq c2)" using N C by (simp_all add: c1_def c2_def)
  have n1: "sumsq c1 \<noteq> 0" and n2: "sumsq c2 \<noteq> 0" using N C by (simp_all add: c1_def c2_def)
  have u1: "sumsq (vdiv c1 (sqrt (sumsq c1))) = 1" using N by (simp only: c1_def sumsq_vdiv_sqrt)
  have u2: "sumsq (vdiv c2 (sqrt (sumsq c2))) = 1" using C by (simp only: c2_def sumsq_vdiv_sqrt)
  have r: "dot (vdiv c1 (sqrt (sumsq c1))) (vdiv c2 (sqrt (sumsq c2))) = rho"
    using raw by (simp add: dot_vdiv_left dot_vdiv_right c1_def c2_def mult.commute)
  have "dot (vdiv c1 (sqrt (sumsq c1))) (vsub d c) = dot c1 (vsub d c) / sqrt (sumsq c1)"
    by (rule dot_vdiv_left)
  then have g: "sgn (dot (vdiv c1 (sqrt (sumsq c1))) (vsub d c)) = sg"
    using p1 porm by (simp add: sgn_divide c1_def)
  show ?thesis
    unfolding getDihedral_def Let_def c1_def[symmetric] c2_def[symmetric] dot_self u1 u2 r g
    using n1 n2 rho by simp
qed

lemma mm_stack_lin:
  "mm (stack_dim1 x y z) (Vec3 p q r) = vadd (vadd (smul p x) (smul q y)) (smul r z)"
  by (cases x; cases y; cases z) (simp add: mult.commute)

lemma vdiv_smul: "vdiv w s = smul (1 / s) w"
  by (cases w) simp

lemma smul_smul: "smul s (smul t w) = smul (s * t) w"
  by (cases w) (simp add: mult.assoc)

lemma cross_frame:
  assumes "dot n v = 0"
  shows "cross v (vadd (vadd (smul p v) (smul q (cross n v))) (smul r n))
     = vsub (smul (q * sumsq v) n) (smul r (cross n v))"
proof -
  have "cross v (vadd (vadd (smul p v) (smul q (cross n v))) (smul r n))
     = vsub (vsub (smul (q * sumsq v) n) (smul r (cross n v))) (smul (q * dot n v) v)"
    by (cases n; cases v) (simp add: algebra_simps power2_eq_square)
  also have "\<dots> = vsub (smul (q * sumsq v) n) (smul r (cross n v))"
    unfolding assms by (cases n; cases v) simp
  finally show ?thesis .
qed

lemma sumsq_vsub_smul:
  "sumsq (vsub (smul s n) (smul r p)) = s\<^sup>2 * sumsq n + r\<^sup>2 * sumsq p - 2 * s * r * dot n p"
  by (cases n; cases p) (simp add: algebra_simps power2_eq_square)

lemma dot_vsub_smul:
  "dot n (vsub (smul s n) (smul r p)) = s * sumsq n - r * dot n p"
  by (cases n; cases p) (simp add: algebra_simps power2_eq_square)

lemma dot_lin3:
  "dot n (vadd (vadd (smul p v) (smul q w)) (smul r n)) = p * dot n v + q * dot n w + r * sumsq n"
  by (cases n; cases v; cases w) (simp add: algebra_simps power2_eq_square)

lemma dot_cross_self: "dot n (cross n v) = 0"
  by (cases n; cases v) (simp add: algebra_simps)

text \<open>The displacement of nerf as a combination of c - b, n x (c - b) and n = (b - a) x (c - b).\<close>
lemma nerf_displacement:
  assumes v: "1 / 10 ^ 6 \<le> sqrt (sumsq (vsub c b))"
  shows "\<exists>k. 0 < k \<and> vsub (nerf a b c l theta chi dev) c
     = vadd (vadd (smul (- l * cos theta / sqrt (sumsq (vsub c b))) (vsub c b))
                  (smul (l * sin theta * cos chi / (k * sqrt (sumsq (vsub c b))))
                        (cross (cross (vsub b a) (vsub c b)) (vsub c b))))
            (smul (l * sin theta * sin chi / k) (cross (vsub b a) (vsub c b)))"
proof -
  define sv where "sv = sqrt (sumsq (vsub c b))"
  define su where "su = max (sqrt (sumsq (vsub b a))) (1 / 10 ^ 6)"
  define n where "n = vdiv (cross (vsub b a) (vsub c b)) (su * sv)"
  define sn where "sn = max (sqrt (sumsq n)) (1 / 10 ^ 6)"
  define k where "k = su * sv * sn"
  have su0: "0 < su" by (simp add: su_def less_max_iff_disj)
  have sn0: "0 < sn" by (simp add: sn_def less_max_iff_disj)
  have sv0: "0 < sv" using floor_pos[OF v] by (simp only: sv_def)
  have k0: "0 < k" using su0 sv0 sn0 by (simp add: k_def)
  have W: "l2_normalize (vsub b a) dev eps_default = vdiv (vsub b a) su"
    by (simp only: l2_normalize_floor su_def)
  have X: "l2_normalize (vsub c b) dev eps_default = vdiv (vsub c b) sv"
    using l2_normalize_unit[OF v] by (simp only: unit_normalize_def sv_def)
  have N: "cross (vdiv (vsub b a) su) (vdiv (vsub c b) sv) = n"
    by (simp add: cross_vdiv_left cross_vdiv_right vdiv_vdiv n_def mult.commute)
  have Z: "l2_normalize n dev eps_default = vdiv (cross (vsub b a) (vsub c b)) k"
  proof -
    have "l2_normalize n dev eps_default = vdiv n sn" by (simp only: l2_normalize_floor sn_def)
    also have "\<dots> = vdiv (cross (vsub b a) (vsub c b)) k" by (simp only: n_def vdiv_vdiv k_def)
    finally show ?thesis .
  qed
  have Y: "cross (vdiv (cross (vsub b a) (vsub c b)) k) (vdiv (vsub c b) sv)
      = vdiv (cross (cross (vsub b a) (vsub c b)) (vsub c b)) (k * sv)"
    by (simp add: cross_vdiv_left cross_vdiv_right vdiv_vdiv mult.commute)
  have "vsub (nerf a b c l theta chi dev) c
     = vadd (vadd (smul (- l * cos theta / sv) (vsub c b))
                  (smul (l * sin theta * cos chi / (k * sv))
                        (cross (cross (vsub b a) (vsub c b)) (vsub c b))))
            (smul (l * sin theta * sin chi / k) (cross (vsub b a) (vsub c b)))"
    unfolding nerf_def Let_def W X N Z Y vsub_vadd_cancel mm_stack_lin
    by (simp add: vdiv_smul smul_smul)
  then show ?thesis using k0 unfolding sv_def by blast
qed

lemma sumsq_eq_0_iff: "sumsq w = 0 \<longleftrightarrow> w = zeros3"
  by (cases w) (auto simp add: zeros3_def add_nonneg_eq_0_iff)

lemma sumsq_pos_iff: "0 < sumsq w \<longleftrightarrow> w \<noteq> zeros3"
  using sumsq_eq_0_iff[of w] sumsq_nonneg[of w] by linarith

lemma sgn_pos_mult: "0 < (s::real) \<Longrightarrow> sgn (s * x) = sgn x"
  by (simp add: sgn_mult)

lemma sumsq_second_normal_poly:
  "(m * c * sv)\<^sup>2 * sn\<^sup>2 + (m * s)\<^sup>2 * (sn\<^sup>2 * sv\<^sup>2) = (m * sv * sn)\<^sup>2 * (c\<^sup>2 + s\<^sup>2)"
  for m c s sv sn :: real
  by (simp add: power_mult_distrib algebra_simps)

lemma nerf_getDihedral:
  assumes v: "1 / 10 ^ 6 \<le> sqrt (sumsq (vsub c b))"
    and N: "cross (vsub b a) (vsub c b) \<noteq> zeros3"
    and l: "0 < l" and th: "0 < theta" "theta < pi"
  shows "getDihedral a b c (nerf a b c l theta chi dev) True
     = Inr (if sgn (sin chi) \<noteq> 0 then arccos (cos chi) * sgn (sin chi) else arccos (cos chi))"
proof -
  define d where "d = nerf a b c l theta chi dev"
  define n where "n = cross (vsub b a) (vsub c b)"
  define vv where "vv = vsub c b"
  define sv where "sv = sqrt (sumsq vv)"
  obtain k where k0: "0 < k" and
    w: "vsub d c = vadd (vadd (smul (- l * cos theta / sv) vv)
                  (smul (l * sin theta * cos chi / (k * sv)) (cross n vv)))
            (smul (l * sin theta * sin chi / k) n)"
    using nerf_displacement[OF v, of a l theta chi dev] unfolding d_def n_def vv_def sv_def by blast
  define m where "m = l * sin theta / k"
  have st: "0 < sin theta" using th by (rule sin_gt_zero)
  have m0: "0 < m" using l st k0 by (simp add: m_def)
  have sv0: "0 < sv" using floor_pos[OF v] by (simp only: sv_def vv_def)
  have sv2: "sumsq vv = sv\<^sup>2" by (simp add: sv_def sumsq_nonneg)
  have n0: "0 < sumsq n" using N unfolding n_def sumsq_pos_iff .
  define sn where "sn = sqrt (sumsq n)"
  have sn0: "0 < sn" using n0 by (simp add: sn_def)
  have sn2: "sumsq n = sn\<^sup>2" by (simp add: sn_def sumsq_nonneg)
  have dnv: "dot n vv = 0" by (simp only: n_def vv_def dot_cross_right)
  have dnp: "dot n (cross n vv) = 0" by (rule dot_cross_self)
  have sp: "sumsq (cross n vv) = sn\<^sup>2 * sv\<^sup>2" by (simp add: sumsq_cross dnv sn2 sv2)
  have q: "l * sin theta * cos chi / (k * sv) = m * cos chi / sv" by (simp add: m_def)
  have r: "l * sin theta * sin chi / k = m * sin chi" by (simp add: m_def)
  have c2: "cross vv (vsub d c) = vsub (smul (m * cos chi / sv * sumsq vv) n) (smul (m * sin chi) (cross n vv))"
    unfolding w q r by (rule cross_frame[OF dnv])
  have qs: "m * cos chi / sv * sumsq vv = m * cos chi * sv"
    using sv0 by (simp add: sv2 power2_eq_square)
  have "sumsq (cross vv (vsub d c)) = (m * cos chi * sv)\<^sup>2 * sn\<^sup>2 + (m * sin chi)\<^sup>2 * (sn\<^sup>2 * sv\<^sup>2)"
    unfolding c2 qs sumsq_vsub_smul dnp sp sn2 by simp
  also have "\<dots> = (m * sv * sn)\<^sup>2 * ((cos chi)\<^sup>2 + (sin chi)\<^sup>2)"
    by (rule sumsq_second_normal_poly)
  finally have sc2: "sumsq (cross vv (vsub d c)) = (m * sv * sn)\<^sup>2" by simp
  have msn: "0 < m * sv * sn" using m0 sv0 sn0 by simp
  then have C: "0 < sumsq (cross vv (vsub d c))" unfolding sc2 by (rule zero_less_power)
  have rc2: "sqrt (sumsq (cross vv (vsub d c))) = m * sv * sn"
    unfolding sc2 using msn by simp
  have dc2: "dot n (cross vv (vsub d c)) = m * cos chi * sv * sn\<^sup>2"
    unfolding c2 qs dot_vsub_smul dnp sn2 by simp
  have raw: "dot n (cross vv (vsub d c)) / (sqrt (sumsq n) * sqrt (sumsq (cross vv (vsub d c)))) = cos chi"
    unfolding dc2 rc2 sn_def[symmetric] using m0 sv0 sn0 by (simp add: power2_eq_square)
  have "dot n (vsub d c) = (m * sn\<^sup>2) * sin chi"
    unfolding w q r dot_lin3 dnv dnp sn2 by simp
  moreover have "0 < m * sn\<^sup>2" using m0 sn0 by simp
  ultimately have porm: "sgn (dot n (vsub d c)) = sgn (sin chi)" by (simp only: sgn_pos_mult)
  have "getDihedral a b c d True
     = Inr (if sgn (sin chi) \<noteq> 0 then arccos (cos chi) * sgn (sin chi) else arccos (cos chi))"
    by (rule getDihedral_core[OF n0[unfolded n_def] C[unfolded vv_def] raw[unfolded n_def vv_def] _ _ porm[unfolded n_def]])
      simp_all
  then show ?thesis by (simp only: d_def)
qed

lemma seed_frame:
  "1 / 10 ^ 6 \<le> sqrt (sumsq (vsub (Vec3 bondlens_n_ca 0 0) zeros3))"
  "1 / 10 ^ 6 \<le> sqrt (sumsq (vsub (Vec3 0 bondlens_ca_c 0) (Vec3 bondlens_n_ca 0 0)))"
  "sqrt (sumsq (vsub (Vec3 bondlens_n_ca 0 0) zeros3))
     * sqrt (sumsq (vsub (Vec3 0 bondlens_ca_c 0) (Vec3 bondlens_n_ca 0 0))) / 10 ^ 6
   \<le> sqrt (sumsq (cross (vsub (Vec3 bondlens_n_ca 0 0) zeros3)
                        (vsub (Vec3 0 bondlens_ca_c 0) (Vec3 bondlens_n_ca 0 0))))"
  "cross (vsub (Vec3 bondlens_n_ca 0 0) zeros3)
         (vsub (Vec3 0 bondlens_ca_c 0) (Vec3 bondlens_n_ca 0 0)) \<noteq> zeros3"
proof -
  define s where "s = sqrt (sumsq (vsub (Vec3 0 bondlens_ca_c 0) (Vec3 bondlens_n_ca 0 0)))"
  have u: "sqrt (sumsq (vsub (Vec3 bondlens_n_ca 0 0) zeros3)) = bondlens_n_ca"
    by (simp add: zeros3_def bondlens_n_ca_def)
  show "1 / 10 ^ 6 \<le> sqrt (sumsq (vsub (Vec3 bondlens_n_ca 0 0) zeros3))"
    unfolding u by (simp add: bondlens_n_ca_def)
  have "(1 / 10 ^ 6)\<^sup>2 \<le> sumsq (vsub (Vec3 0 bondlens_ca_c 0) (Vec3 bondlens_n_ca 0 0))"
    by (simp add: bondlens_n_ca_def bondlens_ca_c_def power2_eq_square)
  then show "1 / 10 ^ 6 \<le> sqrt (sumsq (vsub (Vec3 0 bondlens_ca_c 0) (Vec3 bondlens_n_ca 0 0)))"
    by (rule real_le_rsqrt)
  have "sumsq (vsub (Vec3 0 bondlens_ca_c 0) (Vec3 bondlens_n_ca 0 0)) \<le> 3\<^sup>2"
    by (simp add: bondlens_n_ca_def bondlens_ca_c_def power2_eq_square)
  then have s3: "s \<le> 3" unfolding s_def by (simp only: real_le_lsqrt)
  have n: "sqrt (sumsq (cross (vsub (Vec3 bondlens_n_ca 0 0) zeros3)
                        (vsub (Vec3 0 bondlens_ca_c 0) (Vec3 bondlens_n_ca 0 0))))
      = bondlens_n_ca * bondlens_ca_c"
    by (simp add: zeros3_def bondlens_n_ca_def bondlens_ca_c_def)
  have "bondlens_n_ca * s / 10 ^ 6 \<le> bondlens_n_ca * bondlens_ca_c"
    using s3 by (simp add: bondlens_n_ca_def bondlens_ca_c_def)
  then show "sqrt (sumsq (vsub (Vec3 bondlens_n_ca 0 0) zeros3))
     * sqrt (sumsq (vsub (Vec3 0 bondlens_ca_c 0) (Vec3 bondlens_n_ca 0 0))) / 10 ^ 6
   \<le> sqrt (sumsq (cross (vsub (Vec3 bondlens_n_ca 0 0) zeros3)
                        (vsub (Vec3 0 bondlens_ca_c 0) (Vec3 bondlens_n_ca 0 0))))"
    unfolding u n s_def .
  show "cross (vsub (Vec3 bondlens_n_ca 0 0) zeros3)
         (vsub (Vec3 0 bondlens_ca_c 0) (Vec3 bondlens_n_ca 0 0)) \<noteq> zeros3"
    by (simp add: zeros3_def bondlens_n_ca_def bondlens_ca_c_def)
qed


lemma nerf_short_bond:
  "nerf (Vec3 0 (- 1) 0) (Vec3 0 0 0) (Vec3 (3 / (4 * 10 ^ 6)) 0 0) 1 (pi / 2) (pi / 4) dev
     = Vec3 (3 / (4 * 10 ^ 6)) (- (3 / 4) * (sqrt 2 / 2)) (- (sqrt 2 / 2))"
  by (simp add: nerf_def Let_def l2_normalize_floor cos_45 sin_45)

lemma getDihedral_short_bond:
  "getDihedral (Vec3 0 (- 1) 0) (Vec3 0 0 0) (Vec3 (3 / (4 * 10 ^ 6)) 0 0)
     (Vec3 (3 / (4 * 10 ^ 6)) (- (3 / 4) * (sqrt 2 / 2)) (- (sqrt 2 / 2))) True
   = Inr (arccos (3 / 5))"
proof -
  define t :: real where "t = sqrt 2 / 2"
  define e :: real where "e = 3 / (4 * 10 ^ 6)"
  have t0: "0 < t" by (simp add: t_def)
  have e0: "0 < e" by (simp add: e_def)
  have c1: "cross (vsub (Vec3 0 0 0) (Vec3 0 (- 1) 0)) (vsub (Vec3 e 0 0) (Vec3 0 0 0)) = Vec3 0 0 (- e)"
    by simp
  have c2: "cross (vsub (Vec3 e 0 0) (Vec3 0 0 0)) (vsub (Vec3 e (- (3 / 4) * t) (- t)) (Vec3 e 0 0))
      = Vec3 0 (e * t) (- (3 / 4) * (e * t))"
    by simp
  have s1: "sqrt (sumsq (Vec3 0 0 (- e))) = e" using e0 by simp
  have "sumsq (Vec3 0 (e * t) (- (3 / 4) * (e * t))) = (5 / 4 * (e * t))\<^sup>2"
    by (simp add: power2_eq_square algebra_simps)
  then have s2: "sqrt (sumsq (Vec3 0 (e * t) (- (3 / 4) * (e * t)))) = 5 / 4 * (e * t)"
    using e0 t0 by simp
  have p1: "0 < sumsq (Vec3 0 0 (- e))" using e0 by simp
  have "0 < (e * t)\<^sup>2" using e0 t0 by simp
  then have p2: "0 < sumsq (Vec3 0 (e * t) (- (3 / 4) * (e * t)))"
    by (simp add: power2_eq_square algebra_simps)
  have raw: "dot (Vec3 0 0 (- e)) (Vec3 0 (e * t) (- (3 / 4) * (e * t)))
      / (sqrt (sumsq (Vec3 0 0 (- e))) * sqrt (sumsq (Vec3 0 (e * t) (- (3 / 4) * (e * t))))) = 3 / 5"
    unfolding s1 s2 using e0 t0 by simp
  have porm: "sgn (dot (Vec3 0 0 (- e)) (vsub (Vec3 e (- (3 / 4) * t) (- t)) (Vec3 e 0 0))) = 1"
    using e0 t0 by simp
  have "getDihedral (Vec3 0 (- 1) 0) (Vec3 0 0 0) (Vec3 e 0 0) (Vec3 e (- (3 / 4) * t) (- t)) True
      = Inr (if (1::real) \<noteq> 0 then arccos (3 / 5) * 1 else arccos (3 / 5))"
    by (rule getDihedral_core[OF p1[folded c1] p2[folded c2] raw[folded c1 c2] _ _ porm[folded c1]])
      simp_all
  then show ?thesis by (simp add: t_def e_def)
qed

lemma arccos_three_fifths: "cos (arccos (3 / 5)) \<noteq> cos (pi / 4)"
proof
  assume "cos (arccos (3 / 5)) = cos (pi / 4)"
  then have "(3 / 5 :: real) = sqrt 2 / 2" by (simp add: cos_45)
  then have "(3 / 5 :: real)\<^sup>2 = (sqrt 2 / 2)\<^sup>2" by simp
  then show False by (simp add: power2_eq_square)
qed


section \<open>The claims\<close>

subsection \<open>NeRF placement step\<close>

text \<open>
  C1 (refuted as stated). The claim: for every context with \<open>b - a\<close>, \<open>c - b\<close> and their
  cross product nonzero, \<open>nerf\<close> returns \<open>c + M . displacement\<close> for the frame
  \<open>x = normalize(c - b)\<close>, \<open>z = normalize((b - a) \<times> x)\<close>, \<open>y = z \<times> x\<close>. With bonds shorter
  than \<open>1e-6\<close> the floor of \<open>l2_normalize\<close> scales the frame of the code: for
  \<open>a = (0,0,0)\<close>, \<open>b = (0,1e-9,0)\<close>, \<open>c = (1e-10,1e-9,0)\<close>, \<open>l = 1\<close> and right angles the code
  returns \<open>c + (0,0,-0.1)\<close>, and the formula gives \<open>c + (0,0,-1)\<close> when normalize is the
  exact one or the one worded in the specification, \<open>c + (0,0,-1e-7)\<close> when it is
  \<open>l2_normalize\<close> itself (the code normalizes \<open>b - a\<close> before the cross product).
\<close>
theorem nerf_not_frame_formula_short_bonds:
  "vsub (Vec3 0 (1 / 10 ^ 9) 0) (Vec3 0 0 0) \<noteq> zeros3
   \<and> vsub (Vec3 (1 / 10 ^ 10) (1 / 10 ^ 9) 0) (Vec3 0 (1 / 10 ^ 9) 0) \<noteq> zeros3
   \<and> cross (vsub (Vec3 0 (1 / 10 ^ 9) 0) (Vec3 0 0 0))
            (vsub (Vec3 (1 / 10 ^ 10) (1 / 10 ^ 9) 0) (Vec3 0 (1 / 10 ^ 9) 0)) \<noteq> zeros3
   \<and> nerf (Vec3 0 0 0) (Vec3 0 (1 / 10 ^ 9) 0) (Vec3 (1 / 10 ^ 10) (1 / 10 ^ 9) 0) 1 (pi / 2) (pi / 2)
        (Device ''cpu'')
     \<noteq> nerf_spec unit_normalize
        (Vec3 0 0 0) (Vec3 0 (1 / 10 ^ 9) 0) (Vec3 (1 / 10 ^ 10) (1 / 10 ^ 9) 0) 1 (pi / 2) (pi / 2)
   \<and> nerf (Vec3 0 0 0) (Vec3 0 (1 / 10 ^ 9) 0) (Vec3 (1 / 10 ^ 10) (1 / 10 ^ 9) 0) 1 (pi / 2) (pi / 2)
        (Device ''cpu'')
     \<noteq> nerf_spec normalize_spec
        (Vec3 0 0 0) (Vec3 0 (1 / 10 ^ 9) 0) (Vec3 (1 / 10 ^ 10) (1 / 10 ^ 9) 0) 1 (pi / 2) (pi / 2)
   \<and> nerf (Vec3 0 0 0) (Vec3 0 (1 / 10 ^ 9) 0) (Vec3 (1 / 10 ^ 10) (1 / 10 ^ 9) 0) 1 (pi / 2) (pi / 2)
        (Device ''cpu'')
     \<noteq> nerf_spec (normalize_code (Device ''cpu''))
        (Vec3 0 0 0) (Vec3 0 (1 / 10 ^ 9) 0) (Vec3 (1 / 10 ^ 10) (1 / 10 ^ 9) 0) 1 (pi / 2) (pi / 2)"
  unfolding nerf_tiny nerf_spec_unit_tiny nerf_spec_eps_tiny nerf_spec_code_tiny
  by (simp add: zeros3_def)

text \<open>
  C1 (as amended). When \<open>b - a\<close> and \<open>c - b\<close> have length at least \<open>1e-6\<close> and their cross
  product has length at least \<open>1e-6 |b - a| |c - b|\<close>, \<open>nerf\<close> returns
  \<open>c + M . (-l cos theta, l sin theta cos chi, l sin theta sin chi)\<close>, the columns of \<open>M\<close>
  being the unit vectors \<open>x = (c - b) / |c - b|\<close>, \<open>y = z \<times> x\<close> and
  \<open>z = ((b - a) \<times> x) / |(b - a) \<times> x|\<close>.
\<close>
theorem nerf_frame_formula:
  assumes "1 / 10 ^ 6 \<le> sqrt (sumsq (vsub b a))"
    and "1 / 10 ^ 6 \<le> sqrt (sumsq (vsub c b))"
    and "sqrt (sumsq (vsub b a)) * sqrt (sumsq (vsub c b)) / 10 ^ 6
           \<le> sqrt (sumsq (cross (vsub b a) (vsub c b)))"
  shows "nerf a b c l theta chi dev = nerf_spec unit_normalize a b c l theta chi"
  by (simp only: nerf_unit_frame[OF assms] nerf_spec_unit_frame[OF assms(2)])

theorem nerf_frame_formula_witness:
  "1 / 10 ^ 6 \<le> sqrt (sumsq (vsub (Vec3 bondlens_n_ca 0 0) zeros3))
   \<and> 1 / 10 ^ 6 \<le> sqrt (sumsq (vsub (Vec3 0 bondlens_ca_c 0) (Vec3 bondlens_n_ca 0 0)))
   \<and> sqrt (sumsq (vsub (Vec3 bondlens_n_ca 0 0) zeros3))
       * sqrt (sumsq (vsub (Vec3 0 bondlens_ca_c 0) (Vec3 bondlens_n_ca 0 0))) / 10 ^ 6
     \<le> sqrt (sumsq (cross (vsub (Vec3 bondlens_n_ca 0 0) zeros3)
                          (vsub (Vec3 0 bondlens_ca_c 0) (Vec3 bondlens_n_ca 0 0))))
   \<and> nerf zeros3 (Vec3 bondlens_n_ca 0 0) (Vec3 0 bondlens_ca_c 0) bondlens_c_n (pi / 2) (pi / 2)
        (Device ''cpu'')
     = nerf_spec unit_normalize zeros3 (Vec3 bondlens_n_ca 0 0) (Vec3 0 bondlens_ca_c 0)
         bondlens_c_n (pi / 2) (pi / 2)
   \<and> nerf_spec unit_normalize zeros3 (Vec3 bondlens_n_ca 0 0) (Vec3 0 bondlens_ca_c 0)
         bondlens_c_n (pi / 2) (pi / 2) = Vec3 0 bondlens_ca_c bondlens_c_n"
  using nerf_frame_formula[OF seed_frame(1-3), of bondlens_c_n "pi / 2" "pi / 2" "Device ''cpu''"]
    seed_frame(1-3) nerf_seed_frame[of bondlens_c_n "Device ''cpu''"]
  by simp

text \<open>
  C2 (refuted as stated). The claim: for every context with \<open>b - a\<close>, \<open>c - b\<close> and their
  cross product nonzero and \<open>l > 0\<close>, the returned point is at distance \<open>l\<close> from \<open>c\<close>.
  For \<open>a = (0,0,0)\<close>, \<open>b = (0,1e-9,0)\<close>, \<open>c = (1e-10,1e-9,0)\<close>, \<open>l = 1\<close> and right angles the
  distance is \<open>0.1\<close>.
\<close>
theorem nerf_bond_length_short_bonds:
  "vsub (Vec3 0 (1 / 10 ^ 9) 0) (Vec3 0 0 0) \<noteq> zeros3
   \<and> vsub (Vec3 (1 / 10 ^ 10) (1 / 10 ^ 9) 0) (Vec3 0 (1 / 10 ^ 9) 0) \<noteq> zeros3
   \<and> cross (vsub (Vec3 0 (1 / 10 ^ 9) 0) (Vec3 0 0 0))
            (vsub (Vec3 (1 / 10 ^ 10) (1 / 10 ^ 9) 0) (Vec3 0 (1 / 10 ^ 9) 0)) \<noteq> zeros3
   \<and> (0::real) < 1
   \<and> sqrt (sumsq (vsub (nerf (Vec3 0 0 0) (Vec3 0 (1 / 10 ^ 9) 0) (Vec3 (1 / 10 ^ 10) (1 / 10 ^ 9) 0)
                              1 (pi / 2) (pi / 2) (Device ''cpu''))
                        (Vec3 (1 / 10 ^ 10) (1 / 10 ^ 9) 0))) = 1 / 10
   \<and> sqrt (sumsq (vsub (nerf (Vec3 0 0 0) (Vec3 0 (1 / 10 ^ 9) 0) (Vec3 (1 / 10 ^ 10) (1 / 10 ^ 9) 0)
                              1 (pi / 2) (pi / 2) (Device ''cpu''))
                        (Vec3 (1 / 10 ^ 10) (1 / 10 ^ 9) 0))) \<noteq> 1"
  unfolding nerf_tiny by (simp add: zeros3_def)

text \<open>
  C2 (as amended). When \<open>b - a\<close> and \<open>c - b\<close> have length at least \<open>1e-6\<close>, their cross
  product has length at least \<open>1e-6 |b - a| |c - b|\<close> and \<open>l > 0\<close>, the point returned by
  \<open>nerf\<close> is at distance \<open>l\<close> from \<open>c\<close>; hence, when the last three atoms of \<open>coords\<close>
  are such \<open>a, b, c\<close>, the N atom that \<open>extend_backbone\<close> places is at distance 1.379 from
  the atom placed immediately before it, \<open>coords[-1]\<close>.
\<close>
theorem nerf_bond_length:
  assumes "1 / 10 ^ 6 \<le> sqrt (sumsq (vsub b a))"
    and "1 / 10 ^ 6 \<le> sqrt (sumsq (vsub c b))"
    and "sqrt (sumsq (vsub b a)) * sqrt (sumsq (vsub c b)) / 10 ^ 6
           \<le> sqrt (sumsq (cross (vsub b a) (vsub c b)))"
    and "0 < l"
  shows "sqrt (sumsq (vsub (nerf a b c l theta chi dev) c)) = l
     \<and> (item coords (- 3) = Inr a \<and> item coords (- 2) = Inr b \<and> item coords (- 1) = Inr c
          \<and> extend_backbone i ang coords dev = Inr pts
        \<longrightarrow> sqrt (sumsq (vsub (pts ! 0) c)) = bondlens_c_n)"
proof (intro conjI impI)
  show "sqrt (sumsq (vsub (nerf a b c l theta chi dev) c)) = l"
    using assms by (simp only: nerf_distance less_imp_le)
next
  assume h: "item coords (- 3) = Inr a \<and> item coords (- 2) = Inr b \<and> item coords (- 1) = Inr c
          \<and> extend_backbone i ang coords dev = Inr pts"
  then obtain t0 d0 where "pts ! 0 = nerf a b c bondlens_c_n t0 d0 dev"
    using extend_backbone_Inr[of i ang coords dev pts] by auto
  moreover have "0 \<le> bondlens_c_n" by (simp add: bondlens_c_n_def)
  ultimately show "sqrt (sumsq (vsub (pts ! 0) c)) = bondlens_c_n"
    using assms(1-3) by (simp only: nerf_distance)
qed

theorem nerf_bond_length_witness:
  "1 / 10 ^ 6 \<le> sqrt (sumsq (vsub (Vec3 bondlens_n_ca 0 0) zeros3))
   \<and> 1 / 10 ^ 6 \<le> sqrt (sumsq (vsub (Vec3 0 bondlens_ca_c 0) (Vec3 bondlens_n_ca 0 0)))
   \<and> sqrt (sumsq (vsub (Vec3 bondlens_n_ca 0 0) zeros3))
       * sqrt (sumsq (vsub (Vec3 0 bondlens_ca_c 0) (Vec3 bondlens_n_ca 0 0))) / 10 ^ 6
     \<le> sqrt (sumsq (cross (vsub (Vec3 bondlens_n_ca 0 0) zeros3)
                          (vsub (Vec3 0 bondlens_ca_c 0) (Vec3 bondlens_n_ca 0 0))))
   \<and> 0 < bondlens_n_ca
   \<and> sqrt (sumsq (vsub (nerf zeros3 (Vec3 bondlens_n_ca 0 0) (Vec3 0 bondlens_ca_c 0)
                              bondlens_n_ca (pi / 3) (pi / 5) (Device ''cpu''))
                        (Vec3 0 bondlens_ca_c 0))) = bondlens_n_ca
   \<and> extend_backbone 1 (right_angles 2) [zeros3, Vec3 bondlens_n_ca 0 0, Vec3 0 bondlens_ca_c 0]
        (Device ''cpu'')
     = Inr [Vec3 0 bondlens_ca_c bondlens_c_n, Vec3 0 bondlens_ca_c bondlens_n_ca,
            Vec3 0 bondlens_ca_c bondlens_ca_c]
   \<and> sqrt (sumsq (vsub ([Vec3 0 bondlens_ca_c bondlens_c_n, Vec3 0 bondlens_ca_c bondlens_n_ca,
                          Vec3 0 bondlens_ca_c bondlens_ca_c] ! 0)
                        (Vec3 0 bondlens_ca_c 0))) = bondlens_c_n"
proof -
  have l: "0 < bondlens_n_ca" by (simp add: bondlens_n_ca_def)
  have i: "item [zeros3, Vec3 bondlens_n_ca 0 0, Vec3 0 bondlens_ca_c 0] (- 3) = Inr zeros3
      \<and> item [zeros3, Vec3 bondlens_n_ca 0 0, Vec3 0 bondlens_ca_c 0] (- 2) = Inr (Vec3 bondlens_n_ca 0 0)
      \<and> item [zeros3, Vec3 bondlens_n_ca 0 0, Vec3 0 bondlens_ca_c 0] (- 1) = Inr (Vec3 0 bondlens_ca_c 0)
      \<and> extend_backbone 1 (right_angles 2) [zeros3, Vec3 bondlens_n_ca 0 0, Vec3 0 bondlens_ca_c 0]
          (Device ''cpu'')
        = Inr [Vec3 0 bondlens_ca_c bondlens_c_n, Vec3 0 bondlens_ca_c bondlens_n_ca,
               Vec3 0 bondlens_ca_c bondlens_ca_c]"
    by (simp add: item_def extend_backbone_right_angles)
  from nerf_bond_length[OF seed_frame(1-3) l, of "pi / 3" "pi / 5" "Device ''cpu''"
      "[zeros3, Vec3 bondlens_n_ca 0 0, Vec3 0 bondlens_ca_c 0]" 1 "right_angles 2"
      "[Vec3 0 bondlens_ca_c bondlens_c_n, Vec3 0 bondlens_ca_c bondlens_n_ca,
        Vec3 0 bondlens_ca_c bondlens_ca_c]"] i
  have "sqrt (sumsq (vsub (nerf zeros3 (Vec3 bondlens_n_ca 0 0) (Vec3 0 bondlens_ca_c 0)
                              bondlens_n_ca (pi / 3) (pi / 5) (Device ''cpu''))
                        (Vec3 0 bondlens_ca_c 0))) = bondlens_n_ca
     \<and> sqrt (sumsq (vsub ([Vec3 0 bondlens_ca_c bondlens_c_n, Vec3 0 bondlens_ca_c bondlens_n_ca,
                          Vec3 0 bondlens_ca_c bondlens_ca_c] ! 0)
                        (Vec3 0 bondlens_ca_c 0))) = bondlens_c_n"
    by blast
  then show ?thesis using seed_frame(1-3) l i by blast
qed

text \<open>
  C7 (refuted as stated). The claim: for every context with \<open>b - a\<close>, \<open>c - b\<close> nonzero and
  not collinear, \<open>l > 0\<close> and \<open>0 < theta < pi\<close>, \<open>getDihedral\<close> of the four points gives back
  \<open>chi\<close> modulo \<open>2 pi\<close>. For \<open>a = (0,-1,0)\<close>, \<open>b = (0,0,0)\<close>, \<open>c = (0.75e-6,0,0)\<close>, \<open>l = 1\<close>,
  \<open>theta = pi/2\<close> and \<open>chi = pi/4\<close> it gives \<open>arccos (3/5)\<close>, whose cosine is not that of
  \<open>pi/4\<close>: the floor of \<open>l2_normalize\<close> shortens the axis \<open>x\<close> of the frame to length 0.75.
\<close>
theorem nerf_dihedral_short_bond:
  "vsub (Vec3 0 0 0) (Vec3 0 (- 1) 0) \<noteq> zeros3
   \<and> vsub (Vec3 (3 / (4 * 10 ^ 6)) 0 0) (Vec3 0 0 0) \<noteq> zeros3
   \<and> cross (vsub (Vec3 0 0 0) (Vec3 0 (- 1) 0)) (vsub (Vec3 (3 / (4 * 10 ^ 6)) 0 0) (Vec3 0 0 0)) \<noteq> zeros3
   \<and> (0::real) < 1 \<and> 0 < pi / 2 \<and> pi / 2 < pi
   \<and> getDihedral (Vec3 0 (- 1) 0) (Vec3 0 0 0) (Vec3 (3 / (4 * 10 ^ 6)) 0 0)
        (nerf (Vec3 0 (- 1) 0) (Vec3 0 0 0) (Vec3 (3 / (4 * 10 ^ 6)) 0 0) 1 (pi / 2) (pi / 4)
           (Device ''cpu'')) True
      = Inr (arccos (3 / 5))
   \<and> cos (arccos (3 / 5)) \<noteq> cos (pi / 4)
   \<and> \<not> (\<exists>k::int. getDihedral (Vec3 0 (- 1) 0) (Vec3 0 0 0) (Vec3 (3 / (4 * 10 ^ 6)) 0 0)
        (nerf (Vec3 0 (- 1) 0) (Vec3 0 0 0) (Vec3 (3 / (4 * 10 ^ 6)) 0 0) 1 (pi / 2) (pi / 4)
           (Device ''cpu'')) True
      = Inr (pi / 4 + 2 * pi * real_of_int k))"
proof -
  have "\<not> (\<exists>k::int. arccos (3 / 5) = pi / 4 + 2 * pi * real_of_int k)"
    using arccos_three_fifths sin_cos_eq_iff[of "arccos (3 / 5)" "pi / 4"] by blast
  then show ?thesis
    unfolding nerf_short_bond getDihedral_short_bond
    using arccos_three_fifths by (simp add: zeros3_def)
qed

text \<open>
  C7 (as amended). When \<open>c - b\<close> has length at least \<open>1e-6\<close>, \<open>b - a\<close> and \<open>c - b\<close> are not
  collinear (their cross product is not the zero vector), \<open>l > 0\<close> and \<open>0 < theta < pi\<close>,
  \<open>getDihedral(a, b, c, nerf(a, b, c, l, theta, chi), radian=True)\<close> returns \<open>chi\<close> modulo
  \<open>2 pi\<close>.
\<close>
theorem nerf_dihedral_round_trip:
  assumes "1 / 10 ^ 6 \<le> sqrt (sumsq (vsub c b))"
    and "cross (vsub b a) (vsub c b) \<noteq> zeros3"
    and "0 < l" and "0 < theta" and "theta < pi"
  shows "\<exists>k::int. getDihedral a b c (nerf a b c l theta chi dev) True
           = Inr (chi + 2 * pi * real_of_int k)"
  using signed_arccos[of chi] by (simp add: nerf_getDihedral[OF assms] del: sgn_eq_0_iff)

theorem nerf_dihedral_round_trip_witness:
  "1 / 10 ^ 6 \<le> sqrt (sumsq (vsub (Vec3 0 bondlens_ca_c 0) (Vec3 bondlens_n_ca 0 0)))
   \<and> cross (vsub (Vec3 bondlens_n_ca 0 0) zeros3)
            (vsub (Vec3 0 bondlens_ca_c 0) (Vec3 bondlens_n_ca 0 0)) \<noteq> zeros3
   \<and> 0 < bondlens_c_n \<and> 0 < pi / 2 \<and> pi / 2 < pi
   \<and> (\<exists>k::int. getDihedral zeros3 (Vec3 bondlens_n_ca 0 0) (Vec3 0 bondlens_ca_c 0)
          (nerf zeros3 (Vec3 bondlens_n_ca 0 0) (Vec3 0 bondlens_ca_c 0) bondlens_c_n (pi / 2) 7
             (Device ''cpu'')) True
        = Inr (7 + 2 * pi * real_of_int k))"
proof -
  have l: "0 < bondlens_c_n" by (simp add: bondlens_c_n_def)
  have t: "0 < pi / 2" "pi / 2 < pi" by simp_all
  from nerf_dihedral_round_trip[OF seed_frame(2) seed_frame(4) l t, of 7 "Device ''cpu''"]
  show ?thesis using seed_frame(2) seed_frame(4) l t by blast
qed


subsection \<open>Backbone initializer and extender\<close>

text \<open>
  C3 (the code departs from the claim). The claim: atom 1 is at the origin, atom 2 at
  (1.442, 0, 0), and atom 3 lies in the direction \<open>pi - angles[0,3]\<close> at distance 1.498 from
  atom 2. The code builds atom 3 as \<open>1.498 * (cos (pi - t), sin (pi - t), 0)\<close> without adding
  atom 2, so atom 3 is at distance 1.498 from atom 1 (the origin). For a table whose first
  N-CA-C angle is a right angle the three atoms are (0,0,0), (1.442,0,0), (0,1.498,0): the
  distance between atom 3 and atom 2 is not 1.498, the distance between atom 3 and atom 1 is.
\<close>
theorem init_backbone_third_atom_distance:
  "init_backbone (right_angles 2) dev = Inr [zeros3, Vec3 bondlens_n_ca 0 0, Vec3 0 bondlens_ca_c 0]
   \<and> sqrt (sumsq (vsub (Vec3 0 bondlens_ca_c 0) (Vec3 bondlens_n_ca 0 0))) \<noteq> bondlens_ca_c
   \<and> sqrt (sumsq (vsub (Vec3 0 bondlens_ca_c 0) zeros3)) = bondlens_ca_c"
proof -
  have "sqrt (sumsq (vsub (Vec3 0 bondlens_ca_c 0) (Vec3 bondlens_n_ca 0 0))) \<noteq> bondlens_ca_c"
  proof
    assume "sqrt (sumsq (vsub (Vec3 0 bondlens_ca_c 0) (Vec3 bondlens_n_ca 0 0))) = bondlens_ca_c"
    then have "(sqrt (sumsq (vsub (Vec3 0 bondlens_ca_c 0) (Vec3 bondlens_n_ca 0 0))))\<^sup>2 = bondlens_ca_c\<^sup>2"
      by simp
    then show False by (simp add: bondlens_n_ca_def bondlens_ca_c_def)
  qed
  moreover have "sqrt (sumsq (vsub (Vec3 0 bondlens_ca_c 0) zeros3)) = bondlens_ca_c"
    by (simp add: zeros3_def bondlens_ca_c_def)
  ultimately show ?thesis by (simp add: init_backbone_right_angles)
qed

text \<open>
  C4 (the code departs from the claim). The claim: the three NeRF calls for residue \<open>i\<close>
  each use the three most recently placed atoms as context. The code reads
  \<^verbatim>\<open>coords[-3], coords[-2], coords[-1]\<close> in every iteration but appends the new point to
  \<^verbatim>\<open>bb_pts\<close>, not to \<^verbatim>\<open>coords\<close>, so all three calls use the last three atoms of the
  previous residue. On the seed atoms of the right-angle table, the CA of residue 1 is the
  NeRF point of the context (N0, CA0, C0); it is not the NeRF point of the context
  (CA0, C0, N1), and its distance from the N just placed is not the N-CA bond length.
  The bond lengths and the angle columns are as the claim says (\<open>extend_backbone_eq\<close>).
\<close>
theorem extend_backbone_reuses_context:
  "extend_backbone 1 (right_angles 2) [zeros3, Vec3 bondlens_n_ca 0 0, Vec3 0 bondlens_ca_c 0] dev
     = Inr [Vec3 0 bondlens_ca_c bondlens_c_n, Vec3 0 bondlens_ca_c bondlens_n_ca,
            Vec3 0 bondlens_ca_c bondlens_ca_c]
   \<and> Vec3 0 bondlens_ca_c bondlens_n_ca
       = nerf zeros3 (Vec3 bondlens_n_ca 0 0) (Vec3 0 bondlens_ca_c 0) bondlens_n_ca (pi / 2) (pi / 2) dev
   \<and> Vec3 0 bondlens_ca_c bondlens_n_ca
       \<noteq> nerf (Vec3 bondlens_n_ca 0 0) (Vec3 0 bondlens_ca_c 0) (Vec3 0 bondlens_ca_c bondlens_c_n)
            bondlens_n_ca (pi / 2) (pi / 2) dev
   \<and> sqrt (sumsq (vsub (Vec3 0 bondlens_ca_c bondlens_n_ca) (Vec3 0 bondlens_ca_c bondlens_c_n)))
       \<noteq> bondlens_n_ca"
proof -
  have "vz (nerf (Vec3 bondlens_n_ca 0 0) (Vec3 0 bondlens_ca_c 0) (Vec3 0 bondlens_ca_c bondlens_c_n)
            bondlens_n_ca (pi / 2) (pi / 2) dev) = bondlens_c_n"
    by (simp add: nerf_def Let_def l2_normalize_floor)
  then have A: "Vec3 0 bondlens_ca_c bondlens_n_ca
       \<noteq> nerf (Vec3 bondlens_n_ca 0 0) (Vec3 0 bondlens_ca_c 0) (Vec3 0 bondlens_ca_c bondlens_c_n)
            bondlens_n_ca (pi / 2) (pi / 2) dev"
    by (auto simp add: bondlens_n_ca_def bondlens_c_n_def dest!: arg_cong[where f = vz])
  have B: "sqrt (sumsq (vsub (Vec3 0 bondlens_ca_c bondlens_n_ca) (Vec3 0 bondlens_ca_c bondlens_c_n)))
       \<noteq> bondlens_n_ca"
    by (simp add: bondlens_n_ca_def bondlens_c_n_def)
  show ?thesis using A B by (simp add: extend_backbone_right_angles nerf_seed_frame)
qed

subsection \<open>Chain assembler\<close>

text \<open>
  C5 (the code departs from the claim). The claim: in the returned sequence the backbone
  atoms of a residue are immediately followed by the side-chain atoms of that residue,
  the layout \<^verbatim>\<open>(L x A` x 3)\<close> that the docstring of \<^verbatim>\<open>generate_coords\<close> announces. The code
  returns \<^verbatim>\<open>torch.stack(bb_arr + sc_arr)\<close>: all backbone atoms, then all side-chain atoms
  (\<open>generate_coords_Inr\<close>). For the right-angle table of two residues and an extender that
  adds no atom, the per-residue pieces are the three seed atoms with the placeholder of
  \<open>init_sidechain\<close>, and the three atoms of residue 1 with no side-chain atom; the code
  returns the six backbone atoms followed by the placeholder, which is not the
  interleaved order.
\<close>
theorem generate_coords_not_interleaved:
  "init_backbone (right_angles 2) (Device ''cpu'')
     = Inr [zeros3, Vec3 bondlens_n_ca 0 0, Vec3 0 bondlens_ca_c 0]
   \<and> init_sidechain (right_angles 2) [zeros3, Vec3 bondlens_n_ca 0 0, Vec3 0 bondlens_ca_c 0]
     = [zeros3]
   \<and> extend_backbone 1 (right_angles 2) [zeros3, Vec3 bondlens_n_ca 0 0, Vec3 0 bondlens_ca_c 0]
       (Device ''cpu'')
     = Inr [Vec3 0 bondlens_ca_c bondlens_c_n, Vec3 0 bondlens_ca_c bondlens_n_ca,
            Vec3 0 bondlens_ca_c bondlens_ca_c]
   \<and> generate_coords no_sidechain (right_angles 2) 2 ''AG'' (Device ''cpu'')
     = Inr [zeros3, Vec3 bondlens_n_ca 0 0, Vec3 0 bondlens_ca_c 0,
            Vec3 0 bondlens_ca_c bondlens_c_n, Vec3 0 bondlens_ca_c bondlens_n_ca,
            Vec3 0 bondlens_ca_c bondlens_ca_c, zeros3]
   \<and> generate_coords no_sidechain (right_angles 2) 2 ''AG'' (Device ''cpu'')
     \<noteq> Inr (interleaved_order
          [[zeros3, Vec3 bondlens_n_ca 0 0, Vec3 0 bondlens_ca_c 0],
           [Vec3 0 bondlens_ca_c bondlens_c_n, Vec3 0 bondlens_ca_c bondlens_n_ca,
            Vec3 0 bondlens_ca_c bondlens_ca_c]]
          [[zeros3], []])"
proof -
  have "zeros3 \<noteq> Vec3 0 bondlens_ca_c bondlens_c_n"
    by (simp add: zeros3_def bondlens_ca_c_def)
  then show ?thesis
    by (simp add: init_backbone_right_angles extend_backbone_right_angles
        generate_coords_right_angles init_sidechain_def interleaved_order_def)
qed

text \<open>
  C6 (the code departs from the claim). The claim: the number of returned positions is the
  sum over the residues below \<open>pad_loc\<close> of 3 plus the side-chain atom count of the residue's
  type. For \<open>pad_loc = 1\<close> the loop body never runs: whatever the sequence and whatever the
  side-chain extender, the result has the three seed atoms and the one placeholder of
  \<open>init_sidechain\<close>, four positions, so the count of the first residue does not depend on
  its type.
\<close>
theorem generate_coords_single_residue_count:
  "generate_coords ext (right_angles 1) 1 q dev
     = Inr [zeros3, Vec3 bondlens_n_ca 0 0, Vec3 0 bondlens_ca_c 0, zeros3]"
  by (simp add: generate_coords_def init_backbone_right_angles init_sidechain_def)

text \<open>
  C9. For a table of L rows and \<open>pad_loc > L\<close>, \<open>generate_coords\<close> does not return a
  coordinate sequence: it raises. The error is the \<^verbatim>\<open>IndexError\<close> of reading a row that
  is not there, unless the side-chain extender raised before.
\<close>
theorem generate_coords_fails_past_table:
  assumes "int (length a) < pad_loc"
  shows "\<exists>e. generate_coords ext a pad_loc q dev = Inl e \<and>
     (e = IndexError \<or> (\<exists>j a' bb sc. ext j a' bb sc q = Inl e))"
proof (cases "init_backbone a dev")
  case (Inl e)
  then show ?thesis using init_backbone_error[OF Inl] by (simp add: generate_coords_def)
next
  case (Inr bb0)
  then have "a \<noteq> []"
    by (auto simp add: init_backbone_def item2_def item_def Let_def split: if_splits)
  then have "int (length a) \<in> set [1..pad_loc - 1]" using assms by (cases a) auto
  then have "\<exists>e. generate_coords_loop ext a q dev [1..pad_loc - 1] (bb0, init_sidechain a bb0) = Inl e
      \<and> (e = IndexError \<or> (\<exists>j a' bb sc. ext j a' bb sc q = Inl e))"
    by (rule generate_coords_loop_fails) (simp add: extend_backbone_out_of_range)
  then obtain e where
    "generate_coords_loop ext a q dev [1..pad_loc - 1] (bb0, init_sidechain a bb0) = Inl e"
    "e = IndexError \<or> (\<exists>j a' bb sc. ext j a' bb sc q = Inl e)"
    by blast
  then show ?thesis using Inr by (simp add: generate_coords_def)
qed

theorem generate_coords_fails_past_table_witness:
  "int (length (right_angles 1)) < 2 \<and>
   generate_coords no_sidechain (right_angles 1) 2 ''AG'' (Device ''cpu'') = Inl IndexError"
proof -
  have h: "int (length (right_angles 1)) < 2" by (simp add: right_angles_def)
  from generate_coords_fails_past_table[OF h, of no_sidechain "''AG''" "Device ''cpu''"]
  show ?thesis using h by (auto simp add: no_sidechain_def)
qed

text \<open>
  C10. \<open>init_sidechain\<close> ignores its arguments and returns the one-element list of the zero
  vector. Hence, whenever \<open>generate_coords\<close> returns, the block of side-chain atoms, which
  follows the \<open>3 * max 1 pad_loc\<close> backbone atoms, begins with an atom at the origin; and
  the side-chain extender is never asked about residue 0: two extenders that agree from
  index 1 on give the same result.
\<close>
theorem init_sidechain_placeholder:
  "init_sidechain a backbone = [Vec3 0 0 0]
   \<and> (generate_coords ext a pad_loc q dev = Inr out \<longrightarrow>
        (\<exists>bb sc. out = bb @ Vec3 0 0 0 # sc \<and> length bb = 3 * nat (max 1 pad_loc)))
   \<and> ((\<forall>i bb sc. 1 \<le> i \<longrightarrow> ext i a bb sc q = ext' i a bb sc q) \<longrightarrow>
        generate_coords ext a pad_loc q dev = generate_coords ext' a pad_loc q dev)"
proof (intro conjI impI)
  show "init_sidechain a backbone = [Vec3 0 0 0]" by (simp add: init_sidechain_def zeros3_def)
next
  assume "generate_coords ext a pad_loc q dev = Inr out"
  from generate_coords_Inr[OF this] obtain bb0 bbs scs where
    b: "init_backbone a dev = Inr bb0" and
    l: "length bbs = nat (pad_loc - 1)" and
    o: "out = (bb0 @ concat bbs) @ (init_sidechain a bb0 @ concat scs)" and
    k: "\<forall>k < nat (pad_loc - 1).
        extend_backbone (1 + int k) a (bb0 @ concat (take k bbs)) dev = Inr (bbs ! k) \<and>
        ext (1 + int k) a (bb0 @ concat (take (Suc k) bbs))
            (init_sidechain a bb0 @ concat (take k scs)) q = Inr (scs ! k)"
    by blast
  have "\<forall>b \<in> set bbs. length b = 3"
    using k l extend_backbone_length by (fastforce simp add: in_set_conv_nth)
  then have "length (concat bbs) = 3 * length bbs" by (rule concat_length3)
  then have "length (bb0 @ concat bbs) = 3 * nat (max 1 pad_loc)"
    using init_backbone_length[OF b] l by (auto simp add: max_def nat_diff_distrib)
  then show "\<exists>bb sc. out = bb @ Vec3 0 0 0 # sc \<and> length bb = 3 * nat (max 1 pad_loc)"
    using o by (intro exI[of _ "bb0 @ concat bbs"] exI[of _ "concat scs"])
      (simp add: init_sidechain_def zeros3_def)
next
  assume "\<forall>i bb sc. 1 \<le> i \<longrightarrow> ext i a bb sc q = ext' i a bb sc q"
  then have "\<forall>i \<in> set [1..pad_loc - 1]. \<forall>bb sc. ext i a bb sc q = ext' i a bb sc q" by simp
  then have "\<And>st. generate_coords_loop ext a q dev [1..pad_loc - 1] st
      = generate_coords_loop ext' a q dev [1..pad_loc - 1] st"
    by (rule generate_coords_loop_cong)
  then show "generate_coords ext a pad_loc q dev = generate_coords ext' a pad_loc q dev"
    by (simp only: generate_coords_def)
qed

theorem init_sidechain_placeholder_witness:
  "generate_coords no_sidechain (right_angles 2) 2 ''AG'' (Device ''cpu'')
     = Inr [zeros3, Vec3 bondlens_n_ca 0 0, Vec3 0 bondlens_ca_c 0,
            Vec3 0 bondlens_ca_c bondlens_c_n, Vec3 0 bondlens_ca_c bondlens_n_ca,
            Vec3 0 bondlens_ca_c bondlens_ca_c, zeros3]
   \<and> (\<exists>bb sc. [zeros3, Vec3 bondlens_n_ca 0 0, Vec3 0 bondlens_ca_c 0,
            Vec3 0 bondlens_ca_c bondlens_c_n, Vec3 0 bondlens_ca_c bondlens_n_ca,
            Vec3 0 bondlens_ca_c bondlens_ca_c, zeros3] = bb @ Vec3 0 0 0 # sc \<and> length bb = 6)
   \<and> generate_coords no_sidechain (right_angles 2) 2 ''AG'' (Device ''cpu'')
     = generate_coords (\<lambda>i a bb sc q. if i = 0 then Inl KeyError else Inr [])
         (right_angles 2) 2 ''AG'' (Device ''cpu'')"
proof -
  have e: "generate_coords no_sidechain (right_angles 2) 2 ''AG'' (Device ''cpu'')
     = Inr [zeros3, Vec3 bondlens_n_ca 0 0, Vec3 0 bondlens_ca_c 0,
            Vec3 0 bondlens_ca_c bondlens_c_n, Vec3 0 bondlens_ca_c bondlens_n_ca,
            Vec3 0 bondlens_ca_c bondlens_ca_c, zeros3]"
    by (rule generate_coords_right_angles)
  have h: "\<forall>i bb sc. 1 \<le> i \<longrightarrow> no_sidechain i (right_angles 2) bb sc ''AG''
         = (\<lambda>i a bb sc q. if i = 0 then Inl KeyError else Inr []) i (right_angles 2) bb sc ''AG''"
    by (simp add: no_sidechain_def)
  from init_sidechain_placeholder[of "right_angles 2" "[]" no_sidechain 2 "''AG''" "Device ''cpu''"
      "[zeros3, Vec3 bondlens_n_ca 0 0, Vec3 0 bondlens_ca_c 0,
            Vec3 0 bondlens_ca_c bondlens_c_n, Vec3 0 bondlens_ca_c bondlens_n_ca,
            Vec3 0 bondlens_ca_c bondlens_ca_c, zeros3]"
      "\<lambda>i a bb sc q. if i = 0 then Inl KeyError else Inr []"]
  show ?thesis using e h by simp
qed

subsection \<open>Normalization\<close>

text \<open>
  C8 (refuted as stated). The claim: \<open>l2_normalize v\<close> is \<open>v / max(|v|, eps)\<close> with
  \<open>eps = 1e-12\<close>. The code compares \<open>eps\<close> with the sum of squares, before the square root:
  at \<open>v = (1e-9, 0, 0)\<close> it returns \<open>(1e-3, 0, 0)\<close>, the claimed formula gives \<open>(1, 0, 0)\<close>.
\<close>
theorem l2_normalize_not_spec_normalize:
  "l2_normalize (Vec3 (1 / 10 ^ 9) 0 0) (Device ''cpu'') eps_default
     \<noteq> normalize_spec (Vec3 (1 / 10 ^ 9) 0 0)"
  by (simp add: l2_normalize_floor normalize_spec_def real_sqrt_divide)

text \<open>
  C8 (as amended). With the default \<open>eps = 1e-12\<close>, \<open>l2_normalize v\<close> is
  \<open>v / max(|v|, 1e-6)\<close>, the floor on the length being the square root of \<open>eps\<close>; the divisor
  is at least \<open>1e-6\<close>, so nothing is divided by zero, and the result has length at most 1.
\<close>
theorem l2_normalize_floor_sqrt_eps:
  "l2_normalize v dev eps_default = vdiv v (max (sqrt (sumsq v)) (1 / 10 ^ 6))
   \<and> 1 / 10 ^ 6 \<le> max (sqrt (sumsq v)) (1 / 10 ^ 6)
   \<and> sumsq (l2_normalize v dev eps_default) \<le> 1"
  using l2_normalize_floor[of v dev] l2_le1[of v dev] by simp

end
